theory Spec2Isabelle
  imports Complex_Main "HOL-Library.Sublist" "HOL-Library.AList"
begin

section \<open>Python values\<close>

text \<open>
  The client and the weather server pass around untyped Python data: parsed JSON, the
  dictionaries of the message log, and the content objects a tool call returns. They are
  one datatype here. A dictionary is an association list (keys of JSON objects are
  strings; a well-formed dictionary has distinct keys, and lookup takes the first entry).
  \<open>PText t\<close> is an object with a \<open>text\<close> attribute (the tool protocol's text content),
  \<open>POpaque s\<close> any other object, \<open>s\<close> being what \<open>str\<close> prints for it.

  A string is a list of code points in the range U+0000 to U+00FF, one \<open>char\<close> each.
\<close>

datatype pyval =
    PNone
  | PBool bool
  | PInt int
  | PFloat rat
  | PStr string
  | PList "pyval list"
  | PDict "(string \<times> pyval) list"
  | PText string
  | POpaque string

type_synonym pydict = "(string \<times> pyval) list"

text \<open>
  Exceptions, by class. \<open>RequestException\<close> and \<open>JSONDecodeError\<close> carry the message the
  library built; \<open>KeyError\<close> carries the missing key; \<open>OtherException\<close> is any other
  subclass of \<open>Exception\<close> raised by a collaborator (the tool session, an SDK client).
\<close>

datatype exn =
    RequestException string
  | JSONDecodeError string
  | KeyError string
  | IndexError
  | TypeError
  | AttributeError
  | OtherException string

text \<open>Truth value of an object, as \<open>if x\<close> and \<open>not x\<close> test it.\<close>

fun truthy :: "pyval \<Rightarrow> bool" where
  "truthy PNone = False"
| "truthy (PBool b) = b"
| "truthy (PInt i) = (i \<noteq> 0)"
| "truthy (PFloat r) = (r \<noteq> 0)"
| "truthy (PStr s) = (s \<noteq> [])"
| "truthy (PList xs) = (xs \<noteq> [])"
| "truthy (PDict d) = (d \<noteq> [])"
| "truthy (PText t) = True"
| "truthy (POpaque s) = True"

text \<open>\<open>v[k]\<close> with a string key: only a dictionary can be indexed by a string.\<close>

fun getitem :: "pyval \<Rightarrow> string \<Rightarrow> exn + pyval" where
  "getitem (PDict d) k = (case map_of d k of None \<Rightarrow> Inl (KeyError k) | Some v \<Rightarrow> Inr v)"
| "getitem v k = Inl TypeError"

text \<open>\<open>v[0]\<close>: the first element of a list or string; a JSON dictionary has no key 0.\<close>

fun getfirst :: "pyval \<Rightarrow> exn + pyval" where
  "getfirst (PList []) = Inl IndexError"
| "getfirst (PList (x # xs)) = Inr x"
| "getfirst (PStr []) = Inl IndexError"
| "getfirst (PStr (c # cs)) = Inr (PStr [c])"
| "getfirst (PDict d) = Inl (KeyError ''0'')"
| "getfirst v = Inl TypeError"

text \<open>\<open>v.get(k, default)\<close>: a method of dictionaries only.\<close>

fun dict_get :: "pyval \<Rightarrow> string \<Rightarrow> pyval \<Rightarrow> exn + pyval" where
  "dict_get (PDict d) k dflt = Inr (case map_of d k of None \<Rightarrow> dflt | Some v \<Rightarrow> v)"
| "dict_get v k dflt = Inl AttributeError"

text \<open>\<open>k in v\<close> for a string \<open>k\<close>: a key of a dictionary, an element of a list, a substring
  of a string; numbers, booleans, \<open>None\<close> and plain objects are not iterable.\<close>

fun contains :: "string \<Rightarrow> pyval \<Rightarrow> exn + bool" where
  "contains k (PDict d) = Inr (k \<in> set (map fst d))"
| "contains k (PList xs) = Inr (PStr k \<in> set xs)"
| "contains k (PStr s) = Inr (sublist k s)"
| "contains k v = Inl TypeError"

text \<open>\<open>for x in v\<close>: the elements of a list, the keys of a dictionary, the characters of a string.\<close>

fun iterate :: "pyval \<Rightarrow> exn + pyval list" where
  "iterate (PList xs) = Inr xs"
| "iterate (PDict d) = Inr (map (\<lambda>kv. PStr (fst kv)) d)"
| "iterate (PStr s) = Inr (map (\<lambda>c. PStr [c]) s)"
| "iterate v = Inl TypeError"

text \<open>The text a value contributes to an f-string: a string is itself, anything else goes
  through \<open>str\<close>, which is a parameter (the interpreter's printer).\<close>

fun fstr :: "(pyval \<Rightarrow> string) \<Rightarrow> pyval \<Rightarrow> string" where
  "fstr pystr (PStr s) = s"
| "fstr pystr v = pystr v"

section \<open>Python strings\<close>

definition isspace :: "char \<Rightarrow> bool" where
  "isspace c \<longleftrightarrow> c \<in> set [CHR 0x09, CHR 0x0A, CHR 0x0B, CHR 0x0C, CHR 0x0D,
      CHR 0x1C, CHR 0x1D, CHR 0x1E, CHR 0x1F, CHR 0x20, CHR 0x85, CHR 0xA0]"

definition strip :: "string \<Rightarrow> string" where
  "strip s = rev (dropWhile isspace (rev (dropWhile isspace s)))"

text \<open>The letters with a case: A to Z, and the accented capitals U+00C0 to U+00DE
  (the multiplication sign U+00D7 is not a letter), each 32 below its small letter.\<close>

definition capitals :: string where
  "capitals = ''ABCDEFGHIJKLMNOPQRSTUVWXYZ'' @
     [CHR 0xC0, CHR 0xC1, CHR 0xC2, CHR 0xC3, CHR 0xC4, CHR 0xC5, CHR 0xC6, CHR 0xC7,
      CHR 0xC8, CHR 0xC9, CHR 0xCA, CHR 0xCB, CHR 0xCC, CHR 0xCD, CHR 0xCE, CHR 0xCF,
      CHR 0xD0, CHR 0xD1, CHR 0xD2, CHR 0xD3, CHR 0xD4, CHR 0xD5, CHR 0xD6, CHR 0xD8,
      CHR 0xD9, CHR 0xDA, CHR 0xDB, CHR 0xDC, CHR 0xDD, CHR 0xDE]"

definition smalls :: string where
  "smalls = ''abcdefghijklmnopqrstuvwxyz'' @
     [CHR 0xE0, CHR 0xE1, CHR 0xE2, CHR 0xE3, CHR 0xE4, CHR 0xE5, CHR 0xE6, CHR 0xE7,
      CHR 0xE8, CHR 0xE9, CHR 0xEA, CHR 0xEB, CHR 0xEC, CHR 0xED, CHR 0xEE, CHR 0xEF,
      CHR 0xF0, CHR 0xF1, CHR 0xF2, CHR 0xF3, CHR 0xF4, CHR 0xF5, CHR 0xF6, CHR 0xF8,
      CHR 0xF9, CHR 0xFA, CHR 0xFB, CHR 0xFC, CHR 0xFD, CHR 0xFE]"

definition lower_char :: "char \<Rightarrow> char" where
  "lower_char c = (case map_of (zip capitals smalls) c of None \<Rightarrow> c | Some d \<Rightarrow> d)"

definition lower :: "string \<Rightarrow> string" where
  "lower s = map lower_char s"

text \<open>\<open>upper\<close> is exact on ASCII and on the accented letters U+00E0 to U+00FE; the sharp s
  becomes \<open>SS\<close>. The two code points whose capital lies beyond U+00FF (U+00B5, U+00FF) are
  left as they are.\<close>

definition upper_char :: "char \<Rightarrow> string" where
  "upper_char c =
     (if c = CHR 0xDF then ''SS''
      else case map_of (zip smalls capitals) c of None \<Rightarrow> [c] | Some d \<Rightarrow> [d])"

definition upper :: "string \<Rightarrow> string" where
  "upper s = concat (map upper_char s)"

text \<open>\<open>s.split()\<close>: the maximal runs of non-space characters. The first argument collects
  the current run, reversed.\<close>

fun split_acc :: "string \<Rightarrow> string \<Rightarrow> string list" where
  "split_acc cur [] = (if cur = [] then [] else [rev cur])"
| "split_acc cur (c # cs) =
     (if isspace c then (if cur = [] then split_acc [] cs else rev cur # split_acc [] cs)
      else split_acc (c # cur) cs)"

definition split_ws :: "string \<Rightarrow> string list" where
  "split_ws s = split_acc [] s"

definition is_linebreak :: "char \<Rightarrow> bool" where
  "is_linebreak c \<longleftrightarrow> c \<in> set [CHR 0x0A, CHR 0x0B, CHR 0x0C, CHR 0x0D,
      CHR 0x1C, CHR 0x1D, CHR 0x1E, CHR 0x85]"

text \<open>\<open>s.splitlines()\<close>: a line ends at a line boundary, CR LF counting as one; there is no
  empty last line after a final boundary.\<close>

fun splitlines_acc :: "string \<Rightarrow> string \<Rightarrow> string list" where
  "splitlines_acc cur [] = (if cur = [] then [] else [rev cur])"
| "splitlines_acc cur [c] = (if is_linebreak c then [rev cur] else [rev (c # cur)])"
| "splitlines_acc cur (c # d # cs) =
     (if c = CHR 0x0D \<and> d = CHR 0x0A then rev cur # splitlines_acc [] cs
      else if is_linebreak c then rev cur # splitlines_acc [] (d # cs)
      else splitlines_acc (c # cur) (d # cs))"

definition splitlines :: "string \<Rightarrow> string list" where
  "splitlines s = splitlines_acc [] s"

fun join :: "string \<Rightarrow> string list \<Rightarrow> string" where
  "join sep [] = []"
| "join sep [x] = x"
| "join sep (x # y # ys) = x @ sep @ join sep (y # ys)"

definition startswith :: "string \<Rightarrow> string \<Rightarrow> bool" where
  "startswith s p \<longleftrightarrow> prefix p s"

definition NL :: string where
  "NL = [CHR 0x0A]"

section \<open>The weather server (weather.py)\<close>

text \<open>
  \<open>make_nws_request\<close> returns the parsed body, or \<open>None\<close> after any exception of the
  request. The upstream service is the parameter \<open>nws\<close>, from the URL to that result.
  The URL handed over need not be a string (\<open>get_forecast\<close> passes on a field of a
  response); the HTTP client rejects anything else inside the guarded block.
\<close>

definition NWS_API_BASE :: string where
  "NWS_API_BASE = ''https://api.weather.gov''"

fun make_nws_request :: "(string \<Rightarrow> pyval option) \<Rightarrow> pyval \<Rightarrow> pyval" where
  "make_nws_request nws (PStr url) = (case nws url of None \<Rightarrow> PNone | Some v \<Rightarrow> v)"
| "make_nws_request nws v = PNone"

text \<open>Monadic bind on results: the first exception ends the computation.\<close>

fun bind :: "exn + 'a \<Rightarrow> ('a \<Rightarrow> exn + 'b) \<Rightarrow> exn + 'b" where
  "bind (Inl e) f = Inl e"
| "bind (Inr x) f = f x"

fun mapM :: "('a \<Rightarrow> exn + 'b) \<Rightarrow> 'a list \<Rightarrow> exn + 'b list" where
  "mapM f [] = Inr []"
| "mapM f (x # xs) = bind (f x) (\<lambda>y. bind (mapM f xs) (\<lambda>ys. Inr (y # ys)))"

definition format_alert :: "(pyval \<Rightarrow> string) \<Rightarrow> pyval \<Rightarrow> exn + string" where
  "format_alert pystr feature =
     bind (getitem feature ''properties'') (\<lambda>props.
     bind (dict_get props ''event'' (PStr ''Unknown'')) (\<lambda>event.
     bind (dict_get props ''areaDesc'' (PStr ''Unknown'')) (\<lambda>area.
     bind (dict_get props ''severity'' (PStr ''Unknown'')) (\<lambda>severity.
     bind (dict_get props ''description'' (PStr ''No description available'')) (\<lambda>description.
     bind (dict_get props ''instruction'' (PStr ''No specific instructions provided'')) (\<lambda>instruction.
     Inr (NL @ ''Event: '' @ fstr pystr event @ NL
          @ ''Area: '' @ fstr pystr area @ NL
          @ ''Severity: '' @ fstr pystr severity @ NL
          @ ''Description: '' @ fstr pystr description @ NL
          @ ''Instructions: '' @ fstr pystr instruction @ NL)))))))"

definition get_alerts :: "(string \<Rightarrow> pyval option) \<Rightarrow> (pyval \<Rightarrow> string) \<Rightarrow> string \<Rightarrow> exn + string" where
  "get_alerts nws pystr state =
     (let url = NWS_API_BASE @ ''/alerts/active/area/'' @ state;
          data = make_nws_request nws (PStr url)
      in if \<not> truthy data then Inr ''Unable to fetch alerts or no alerts found.''
         else bind (contains ''features'' data) (\<lambda>has.
           if \<not> has then Inr ''Unable to fetch alerts or no alerts found.''
           else bind (getitem data ''features'') (\<lambda>features.
             if \<not> truthy features then Inr ''No active alerts for this state.''
             else bind (iterate features) (\<lambda>fs.
                  bind (mapM (format_alert pystr) fs) (\<lambda>alerts.
                  Inr (join (NL @ ''---'' @ NL) alerts))))))"

text \<open>\<open>periods[:5]\<close>: the first five elements of a list, or characters of a string; nothing
  else can be sliced.\<close>

fun slice5 :: "pyval \<Rightarrow> exn + pyval list" where
  "slice5 (PList xs) = Inr (take 5 xs)"
| "slice5 (PStr s) = Inr (map (\<lambda>c. PStr [c]) (take 5 s))"
| "slice5 v = Inl TypeError"

definition format_period :: "(pyval \<Rightarrow> string) \<Rightarrow> pyval \<Rightarrow> exn + string" where
  "format_period pystr period =
     bind (getitem period ''name'') (\<lambda>name.
     bind (getitem period ''temperature'') (\<lambda>temperature.
     bind (getitem period ''temperatureUnit'') (\<lambda>unit.
     bind (getitem period ''windSpeed'') (\<lambda>windSpeed.
     bind (getitem period ''windDirection'') (\<lambda>windDirection.
     bind (getitem period ''detailedForecast'') (\<lambda>detailed.
     Inr (NL @ fstr pystr name @ '':'' @ NL
          @ ''Temperature: '' @ fstr pystr temperature @ [CHR 0xB0] @ fstr pystr unit @ NL
          @ ''Wind: '' @ fstr pystr windSpeed @ '' '' @ fstr pystr windDirection @ NL
          @ ''Forecast: '' @ fstr pystr detailed @ NL)))))))"

definition get_forecast ::
  "(string \<Rightarrow> pyval option) \<Rightarrow> (pyval \<Rightarrow> string) \<Rightarrow> ('f \<Rightarrow> string) \<Rightarrow> 'f \<Rightarrow> 'f \<Rightarrow> exn + string" where
  "get_forecast nws pystr fmt latitude longitude =
     (let points_url = NWS_API_BASE @ ''/points/'' @ fmt latitude @ '','' @ fmt longitude;
          points_data = make_nws_request nws (PStr points_url)
      in if \<not> truthy points_data then Inr ''Unable to fetch forecast data for this location.''
         else bind (getitem points_data ''properties'') (\<lambda>props.
              bind (getitem props ''forecast'') (\<lambda>forecast_url.
              let forecast_data = make_nws_request nws forecast_url
              in if \<not> truthy forecast_data then Inr ''Unable to fetch detailed forecast.''
                 else bind (getitem forecast_data ''properties'') (\<lambda>fprops.
                      bind (getitem fprops ''periods'') (\<lambda>periods.
                      bind (slice5 periods) (\<lambda>ps.
                      bind (mapM (format_period pystr) ps) (\<lambda>forecasts.
                      Inr (join (NL @ ''---'' @ NL) forecasts))))))))"

text \<open>\<open>get_historical_weather\<close> takes no upstream: it formats its two arguments into a
  fixed text. \<open>fmt\<close> is the printing of a float in an f-string.\<close>

definition get_historical_weather :: "('f \<Rightarrow> string) \<Rightarrow> 'f \<Rightarrow> 'f \<Rightarrow> string" where
  "get_historical_weather fmt latitude longitude =
     NL @ ''Yesterday at ('' @ fmt latitude @ '', '' @ fmt longitude @ ''):'' @ NL
     @ ''Temperature: 68'' @ [CHR 0xB0] @ ''F'' @ NL
     @ ''Wind: 5 mph NW'' @ NL
     @ ''Conditions: Partly cloudy, no precipitation.'' @ NL"

text \<open>
  The three functions registered as tools (\<open>@mcp.tool()\<close>), as a client of the server
  calls them: a call names the operation and gives its arguments, and the server runs the
  function against the upstream service as it is at that moment. \<open>get_historical_weather\<close>
  is the only one whose body makes no request.
\<close>

datatype 'f operation =
    GetAlerts string
  | GetForecast 'f 'f
  | GetHistoricalWeather 'f 'f

fun run_tool ::
  "(string \<Rightarrow> pyval option) \<Rightarrow> (pyval \<Rightarrow> string) \<Rightarrow> ('f \<Rightarrow> string) \<Rightarrow> 'f operation
     \<Rightarrow> exn + string" where
  "run_tool nws pystr fmt (GetAlerts state) = get_alerts nws pystr state"
| "run_tool nws pystr fmt (GetForecast latitude longitude) =
     get_forecast nws pystr fmt latitude longitude"
| "run_tool nws pystr fmt (GetHistoricalWeather latitude longitude) =
     Inr (get_historical_weather fmt latitude longitude)"

text \<open>
  The \<open>/chat\<close> endpoint. Its answer is the \<open>response\<close> field of the JSON it returns. The
  branch for forecasts (coordinates, the table of state names, geocoding, the fallback to
  a second service) is the parameter \<open>forecast_branch\<close>; the parsing of a float is the
  parameter \<open>parse_float\<close> (\<open>None\<close> where \<open>float\<close> raises).
\<close>

definition last_item :: "'a list \<Rightarrow> exn + 'a" where
  "last_item xs = (if xs = [] then Inl IndexError else Inr (last xs))"

definition second_last_item :: "'a list \<Rightarrow> exn + 'a" where
  "second_last_item xs = (if length xs < 2 then Inl IndexError else Inr (xs ! (length xs - 2)))"

definition history_branch ::
  "(string \<Rightarrow> 'f option) \<Rightarrow> ('f \<Rightarrow> string) \<Rightarrow> string \<Rightarrow> string" where
  "history_branch parse_float fmt query =
     (let parts = split_ws query
      in case second_last_item parts of
           Inl e \<Rightarrow> ''Invalid coordinates. Use: history for <lat> <lon>''
         | Inr a \<Rightarrow>
             (case parse_float a of
                None \<Rightarrow> ''Invalid coordinates. Use: history for <lat> <lon>''
              | Some lat \<Rightarrow>
                  (case parse_float (last parts) of
                     None \<Rightarrow> ''Invalid coordinates. Use: history for <lat> <lon>''
                   | Some lon \<Rightarrow> get_historical_weather fmt lat lon)))"

definition chat ::
  "(string \<Rightarrow> pyval option) \<Rightarrow> (pyval \<Rightarrow> string) \<Rightarrow> (string \<Rightarrow> 'f option) \<Rightarrow> ('f \<Rightarrow> string)
     \<Rightarrow> (string \<Rightarrow> exn + string) \<Rightarrow> string \<Rightarrow> exn + string" where
  "chat nws pystr parse_float fmt forecast_branch query =
     (if startswith (lower query) ''alerts in'' then
        bind (last_item (split_ws query)) (\<lambda>w. get_alerts nws pystr (upper w))
      else if startswith (lower query) ''forecast for'' then forecast_branch query
      else if startswith (lower query) ''history for'' then Inr (history_branch parse_float fmt query)
      else Inr ''Try: alerts in <STATE>, forecast for <LAT> <LON>, or history for <LAT> <LON>'')"

section \<open>The client (client.py): collaborators\<close>

text \<open>
  A message of the log is a dictionary. What the client does not contain is a parameter,
  gathered in one record:
  \<^item> \<open>post tools messages\<close>: \<open>requests.post\<close> of a payload with these tool declarations
    and messages; it raises, or returns a response with a status code and a body;
  \<^item> \<open>http_error r\<close>: the message of the error \<open>raise_for_status\<close> raises for \<open>r\<close>;
  \<^item> \<open>loads s\<close>: the JSON parser, \<open>Inl\<close> the message of its error;
  \<^item> \<open>json_error_is_request_exception\<close>: whether the error \<open>response.json()\<close> raises is a
    subclass of \<open>RequestException\<close> (it is one in recent versions of the library);
  \<^item> \<open>dumps v\<close>: the JSON encoder, which raises on a value it cannot encode;
  \<^item> \<open>list_tools\<close> and \<open>call_tool name args\<close>: the session with the tool server;
    \<open>call_tool\<close> returns the \<open>content\<close> of the result;
  \<^item> \<open>anthropic_create\<close> and \<open>openai_create\<close>: the two SDK clients, called with the
    messages and, on the first request only, the tool declarations;
  \<^item> \<open>pystr v\<close>: \<open>str(v)\<close>; \<open>builtin_str e\<close>: \<open>str(e)\<close> for an exception of the interpreter.
\<close>

type_synonym message = pydict

record http_response =
  status_code :: nat
  body :: string

record tool =
  tool_name :: string
  tool_description :: string
  tool_input_schema :: pyval

text \<open>A content block of a reply of the Anthropic SDK. The third field of a tool-use
  block is its \<open>text\<close> attribute, which the code asks for (\<open>hasattr\<close>); the SDK's class
  has none.\<close>

datatype block =
    TextBlock string
  | ToolUseBlock string pyval "string option"
  | OtherBlock

text \<open>A reply of the OpenAI SDK: the messages of its choices.\<close>

record oa_tool_call =
  tc_id :: string
  tc_name :: string
  tc_arguments :: string

record oa_message =
  oa_content :: "string option"
  oa_tool_calls :: "oa_tool_call list option"

record world =
  post :: "pyval list \<Rightarrow> message list \<Rightarrow> exn + http_response"
  http_error :: "http_response \<Rightarrow> string"
  loads :: "string \<Rightarrow> string + pyval"
  json_error_is_request_exception :: bool
  dumps :: "pyval \<Rightarrow> exn + string"
  list_tools :: "exn + tool list"
  call_tool :: "pyval \<Rightarrow> pyval \<Rightarrow> exn + pyval"
  anthropic_create :: "message list \<Rightarrow> pyval list option \<Rightarrow> exn + block list"
  openai_create :: "message list \<Rightarrow> pyval list option \<Rightarrow> exn + oa_message list"
  pystr :: "pyval \<Rightarrow> string"
  builtin_str :: "exn \<Rightarrow> string"

definition exn_str :: "world \<Rightarrow> exn \<Rightarrow> string" where
  "exn_str w e =
     (case e of RequestException m \<Rightarrow> m | JSONDecodeError m \<Rightarrow> m | OtherException m \<Rightarrow> m
      | _ \<Rightarrow> builtin_str w e)"

definition raise_for_status :: "world \<Rightarrow> http_response \<Rightarrow> exn + unit" where
  "raise_for_status w r =
     (if 400 \<le> status_code r \<and> status_code r < 600 then Inl (RequestException (http_error w r))
      else Inr ())"

definition response_json :: "world \<Rightarrow> http_response \<Rightarrow> exn + pyval" where
  "response_json w r =
     (case loads w (body r) of
        Inl m \<Rightarrow> Inl (if json_error_is_request_exception w then RequestException m
                      else JSONDecodeError m)
      | Inr v \<Rightarrow> Inr v)"

definition json_loads :: "world \<Rightarrow> string \<Rightarrow> exn + pyval" where
  "json_loads w s = (case loads w s of Inl m \<Rightarrow> Inl (JSONDecodeError m) | Inr v \<Rightarrow> Inr v)"

text \<open>What an adapter leaves behind when it returns: the answer, the message log as it
  mutated it, the segments of \<open>final_text\<close>, the message lists it sent to the model
  provider and the tool calls it dispatched, both in order.\<close>

record outcome =
  answer :: string
  log :: "message list"
  segments :: "pyval list"
  sent :: "message list list"
  called :: "(pyval \<times> pyval) list"

text \<open>\<open>"\n".join(final_text)\<close>: every item must be a string.\<close>

fun str_items :: "pyval list \<Rightarrow> exn + string list" where
  "str_items [] = Inr []"
| "str_items (PStr s # vs) = bind (str_items vs) (\<lambda>ss. Inr (s # ss))"
| "str_items (v # vs) = Inl TypeError"

definition join_final :: "pyval list \<Rightarrow> exn + string" where
  "join_final final_text = bind (str_items final_text) (\<lambda>ss. Inr (join NL ss))"

definition calling_marker :: "world \<Rightarrow> pyval \<Rightarrow> pyval \<Rightarrow> string" where
  "calling_marker w name args =
     ''[Calling tool '' @ fstr (pystr w) name @ '' with args '' @ fstr (pystr w) args @ '']''"

definition function_tools :: "tool list \<Rightarrow> pyval list" where
  "function_tools available_tools =
     map (\<lambda>t. PDict [(''type'', PStr ''function''),
                     (''function'', PDict [(''name'', PStr (tool_name t)),
                                          (''description'', PStr (tool_description t)),
                                          (''parameters'', tool_input_schema t)])])
         available_tools"

section \<open>The Groq adapter\<close>

subsection \<open>\<open>sanitize_messages\<close>\<close>

text \<open>The \<open>function\<close> entry of a tool call: copied, without \<open>parameters\<close>, its
  \<open>arguments\<close> made a string. Only a dictionary gets through: a list has \<open>copy\<close> but
  neither \<open>get\<close> nor a \<open>pop\<close> by key, other values have no \<open>copy\<close>.\<close>

fun sanitize_function :: "(pyval \<Rightarrow> exn + string) \<Rightarrow> pyval \<Rightarrow> exn + pyval" where
  "sanitize_function enc (PDict d) =
     (let func = AList.delete ''parameters'' d
      in case map_of func ''arguments'' of
           Some (PDict a) \<Rightarrow>
             bind (enc (PDict a)) (\<lambda>s. Inr (PDict (AList.update ''arguments'' (PStr s) func)))
         | Some (PStr s) \<Rightarrow> Inr (PDict func)
         | _ \<Rightarrow> Inr (PDict (AList.update ''arguments'' (PStr ''{}'') func)))"
| "sanitize_function enc (PList xs) =
     (if PStr ''parameters'' \<in> set xs then Inl TypeError else Inl AttributeError)"
| "sanitize_function enc v = Inl AttributeError"

definition sanitize_tool_call :: "(pyval \<Rightarrow> exn + string) \<Rightarrow> pyval \<Rightarrow> exn + pyval" where
  "sanitize_tool_call enc tc =
     bind (getitem tc ''function'') (\<lambda>f.
     bind (sanitize_function enc f) (\<lambda>func.
     bind (getitem tc ''id'') (\<lambda>i.
     bind (getitem tc ''type'') (\<lambda>t.
     Inr (PDict [(''id'', i), (''type'', t), (''function'', func)])))))"

definition get_or :: "pydict \<Rightarrow> string \<Rightarrow> pyval \<Rightarrow> pyval" where
  "get_or m k dflt = (case map_of m k of None \<Rightarrow> dflt | Some v \<Rightarrow> v)"

text \<open>One message gives one entry or none.\<close>

definition sanitize_message :: "(pyval \<Rightarrow> exn + string) \<Rightarrow> message \<Rightarrow> exn + message list" where
  "sanitize_message enc m0 =
     (let role = get_or m0 ''role'' PNone;
          m = filter (\<lambda>kv. fst kv \<noteq> ''tool_call_step'') m0
      in if role = PStr ''user'' then
           Inr [[(''role'', role), (''content'', get_or m ''content'' (PStr []))]]
         else if role = PStr ''assistant'' then
           (if get_or m ''tool_calls'' PNone \<noteq> PNone then
              bind (iterate (get_or m ''tool_calls'' PNone)) (\<lambda>tcs.
              bind (mapM (sanitize_tool_call enc) tcs) (\<lambda>tool_calls.
              Inr [[(''role'', role), (''content'', PNone), (''tool_calls'', PList tool_calls)]]))
            else (case get_or m ''content'' PNone of
                    PStr s \<Rightarrow> (if strip s \<noteq> [] then Inr [[(''role'', role), (''content'', PStr s)]]
                               else Inr [])
                  | _ \<Rightarrow> Inr []))
         else if role = PStr ''tool'' then
           Inr [[(''role'', PStr ''tool''), (''content'', get_or m ''content'' (PStr [])),
                 (''tool_call_id'', get_or m ''tool_call_id'' PNone)]]
         else Inr [])"

definition sanitize_messages :: "(pyval \<Rightarrow> exn + string) \<Rightarrow> message list \<Rightarrow> exn + message list" where
  "sanitize_messages enc msgs = bind (mapM (sanitize_message enc) msgs) (\<lambda>xs. Inr (concat xs))"

subsection \<open>\<open>_process_with_groq\<close>\<close>

text \<open>The state of the loop over the tool calls of the first reply.\<close>

record loop_state =
  st_log :: "message list"
  st_final_text :: "pyval list"
  st_sent :: "message list list"
  st_called :: "(pyval \<times> pyval) list"

text \<open>The content of a tool result as one string.\<close>

fun item_text :: "(pyval \<Rightarrow> string) \<Rightarrow> pyval \<Rightarrow> string" where
  "item_text str (PText t) = t"
| "item_text str v = fstr str v"

fun flatten_content :: "(pyval \<Rightarrow> string) \<Rightarrow> pyval \<Rightarrow> string" where
  "flatten_content str (PList items) = concat (map (item_text str) items)"
| "flatten_content str (PText t) = t"
| "flatten_content str v = fstr str v"

text \<open>\<open>response_data["choices"][0]["message"]\<close>\<close>

definition first_choice_message :: "pyval \<Rightarrow> exn + pyval" where
  "first_choice_message response_data =
     bind (getitem response_data ''choices'') (\<lambda>choices.
     bind (getfirst choices) (\<lambda>choice.
     getitem choice ''message''))"

text \<open>The guarded body of a follow-up request, once the payload is built: the request,
  then the assistant message to append and the segment to record.\<close>

definition groq_followup_reply ::
  "world \<Rightarrow> pyval list \<Rightarrow> message list \<Rightarrow> exn + (message \<times> pyval)" where
  "groq_followup_reply w tools payload_messages =
     bind (post w tools payload_messages) (\<lambda>response.
     bind (raise_for_status w response) (\<lambda>_.
     bind (response_json w response) (\<lambda>response_data.
     bind (first_choice_message response_data) (\<lambda>response_message.
     bind (dict_get response_message ''content'' PNone) (\<lambda>c.
     bind (dict_get response_message ''content'' (PStr [])) (\<lambda>seg.
     Inr (if truthy c then [(''role'', PStr ''assistant''), (''content'', c)]
          else [(''role'', PStr ''assistant'')],
          seg)))))))"

definition followup_error :: "world \<Rightarrow> exn \<Rightarrow> pyval" where
  "followup_error w e = PStr (''Error getting follow-up response: '' @ exn_str w e)"

text \<open>The loop body, for one tool call of the first reply, has two parts. The first is
  not guarded: the name and the arguments of the call (parsed when they are a string), the
  call of the tool, and the \<open>id\<close> of the call; an exception there leaves the function.\<close>

definition tool_dispatch :: "world \<Rightarrow> pyval \<Rightarrow> exn + (pyval \<times> pyval \<times> pyval \<times> pyval)" where
  "tool_dispatch w tool_call =
     bind (getitem tool_call ''function'') (\<lambda>f.
     bind (getitem f ''name'') (\<lambda>name.
     bind (getitem f ''arguments'') (\<lambda>a.
     bind (case a of PStr s \<Rightarrow> json_loads w s | _ \<Rightarrow> Inr a) (\<lambda>tool_args.
     bind (call_tool w name tool_args) (\<lambda>result_content.
     bind (getitem tool_call ''id'') (\<lambda>call_id.
     Inr (name, tool_args, result_content, call_id)))))))"

text \<open>The two turns appended for a tool call and its result.\<close>

definition assistant_call_turn :: "pyval \<Rightarrow> pyval \<Rightarrow> pyval \<Rightarrow> message" where
  "assistant_call_turn call_id name tool_args =
     [(''role'', PStr ''assistant''),
      (''tool_calls'', PList [PDict [(''id'', call_id), (''type'', PStr ''function''),
         (''function'', PDict [(''name'', name), (''arguments'', tool_args)])]])]"

definition tool_turn :: "world \<Rightarrow> pyval \<Rightarrow> pyval \<Rightarrow> message" where
  "tool_turn w call_id result_content =
     [(''role'', PStr ''tool''),
      (''content'', PStr (flatten_content (pystr w) result_content)),
      (''tool_call_id'', call_id)]"

text \<open>The second part: the announcement, the two turns, and the guarded follow-up
  request, whose failure is recorded as a segment.\<close>

definition groq_after_call ::
  "world \<Rightarrow> pyval list \<Rightarrow> loop_state \<Rightarrow> pyval \<Rightarrow> pyval \<Rightarrow> pyval \<Rightarrow> pyval \<Rightarrow> loop_state" where
  "groq_after_call w tools st name tool_args result_content call_id =
     (let final1 = st_final_text st @ [PStr (calling_marker w name tool_args)];
          log1 = st_log st @ [assistant_call_turn call_id name tool_args,
                              tool_turn w call_id result_content];
          called1 = st_called st @ [(name, tool_args)]
      in case sanitize_messages (dumps w) log1 of
           Inl e \<Rightarrow>
             \<lparr>st_log = log1, st_final_text = final1 @ [followup_error w e],
              st_sent = st_sent st, st_called = called1\<rparr>
         | Inr payload_messages \<Rightarrow>
             (case groq_followup_reply w tools payload_messages of
                Inl e \<Rightarrow>
                  \<lparr>st_log = log1, st_final_text = final1 @ [followup_error w e],
                   st_sent = st_sent st @ [payload_messages], st_called = called1\<rparr>
              | Inr (msg, seg) \<Rightarrow>
                  \<lparr>st_log = log1 @ [msg], st_final_text = final1 @ [seg],
                   st_sent = st_sent st @ [payload_messages], st_called = called1\<rparr>))"

definition groq_tool_step :: "world \<Rightarrow> pyval list \<Rightarrow> pyval \<Rightarrow> loop_state \<Rightarrow> exn + loop_state" where
  "groq_tool_step w tools tool_call st =
     bind (tool_dispatch w tool_call) (\<lambda>(name, tool_args, result_content, call_id).
     Inr (groq_after_call w tools st name tool_args result_content call_id))"

fun groq_tool_loop :: "world \<Rightarrow> pyval list \<Rightarrow> pyval list \<Rightarrow> loop_state \<Rightarrow> exn + loop_state" where
  "groq_tool_loop w tools [] st = Inr st"
| "groq_tool_loop w tools (tool_call # rest) st =
     (case groq_tool_step w tools tool_call st of
        Inl e \<Rightarrow> Inl e
      | Inr st' \<Rightarrow> groq_tool_loop w tools rest st')"

text \<open>The first request, as far as the parsed body.\<close>

definition groq_first_request :: "world \<Rightarrow> pyval list \<Rightarrow> message list \<Rightarrow> exn + pyval" where
  "groq_first_request w tools messages =
     bind (sanitize_messages (dumps w) messages) (\<lambda>payload_messages.
     bind (post w tools payload_messages) (\<lambda>response.
     bind (raise_for_status w response) (\<lambda>_.
     response_json w response)))"

text \<open>The tool calls of the first reply that the loop goes through: none when
  \<open>tool_calls\<close> is missing or false.\<close>

definition reply_tool_calls :: "pyval \<Rightarrow> exn + pyval list" where
  "reply_tool_calls response_message =
     bind (dict_get response_message ''tool_calls'' PNone) (\<lambda>tcs.
     if truthy tcs then iterate tcs else Inr [])"

definition finish :: "loop_state \<Rightarrow> exn + outcome" where
  "finish st =
     bind (join_final (st_final_text st)) (\<lambda>text.
     Inr \<lparr>answer = text, log = st_log st, segments = st_final_text st,
          sent = st_sent st, called = st_called st\<rparr>)"

definition error_outcome :: "string \<Rightarrow> message list \<Rightarrow> message list list \<Rightarrow> outcome" where
  "error_outcome text messages requests =
     \<lparr>answer = text, log = messages, segments = [PStr text], sent = requests, called = []\<rparr>"

definition process_with_groq :: "world \<Rightarrow> tool list \<Rightarrow> message list \<Rightarrow> exn + outcome" where
  "process_with_groq w available_tools messages =
     (let groq_tools = function_tools available_tools;
          requests = (case sanitize_messages (dumps w) messages of
                        Inl e \<Rightarrow> [] | Inr payload_messages \<Rightarrow> [payload_messages])
      in case groq_first_request w groq_tools messages of
           Inl (RequestException m) \<Rightarrow>
             Inr (error_outcome
                   (''Sorry, I encountered an error when connecting to Groq API: '' @ m)
                   messages requests)
         | Inl (JSONDecodeError m) \<Rightarrow>
             Inr (error_outcome
                   (''Sorry, I encountered an error parsing the response from Groq API: '' @ m)
                   messages requests)
         | Inl e \<Rightarrow> Inl e
         | Inr response_data \<Rightarrow>
             bind (first_choice_message response_data) (\<lambda>response_message.
             bind (dict_get response_message ''content'' PNone) (\<lambda>c.
             bind (reply_tool_calls response_message) (\<lambda>tool_calls.
             bind (groq_tool_loop w groq_tools tool_calls
                     \<lparr>st_log = messages,
                      st_final_text = (if truthy c then [c] else []),
                      st_sent = requests, st_called = []\<rparr>) finish))))"

section \<open>The OpenAI adapter\<close>

definition openai_followup :: "world \<Rightarrow> message list \<Rightarrow> exn + pyval" where
  "openai_followup w messages =
     bind (openai_create w messages None) (\<lambda>choices.
     case choices of
       [] \<Rightarrow> Inl IndexError
     | m # _ \<Rightarrow> Inr (case oa_content m of None \<Rightarrow> PNone | Some s \<Rightarrow> PStr s))"

definition openai_tool_step :: "world \<Rightarrow> oa_tool_call \<Rightarrow> loop_state \<Rightarrow> exn + loop_state" where
  "openai_tool_step w tool_call st =
     (let name = PStr (tc_name tool_call); tool_args = PStr (tc_arguments tool_call)
      in bind (call_tool w name tool_args) (\<lambda>result_content.
         let final1 = st_final_text st @ [PStr (calling_marker w name tool_args)];
             log1 = st_log st @
               [[(''role'', PStr ''assistant''), (''content'', PNone),
                 (''tool_calls'', PList [PDict [(''id'', PStr (tc_id tool_call)),
                    (''type'', PStr ''function''),
                    (''function'', PDict [(''name'', name), (''arguments'', tool_args)])]])],
                [(''role'', PStr ''tool''), (''content'', result_content),
                 (''tool_call_id'', PStr (tc_id tool_call))]]
         in Inr \<lparr>st_log = log1,
                 st_final_text = final1 @
                   [case openai_followup w log1 of Inl e \<Rightarrow> followup_error w e | Inr c \<Rightarrow> c],
                 st_sent = st_sent st @ [log1],
                 st_called = st_called st @ [(name, tool_args)]\<rparr>))"

fun openai_tool_loop :: "world \<Rightarrow> oa_tool_call list \<Rightarrow> loop_state \<Rightarrow> exn + loop_state" where
  "openai_tool_loop w [] st = Inr st"
| "openai_tool_loop w (tool_call # rest) st =
     (case openai_tool_step w tool_call st of
        Inl e \<Rightarrow> Inl e
      | Inr st' \<Rightarrow> openai_tool_loop w rest st')"

definition process_with_openai :: "world \<Rightarrow> tool list \<Rightarrow> message list \<Rightarrow> exn + outcome" where
  "process_with_openai w available_tools messages =
     (case openai_create w messages (Some (function_tools available_tools)) of
        Inl e \<Rightarrow>
          Inr (error_outcome
                (''Sorry, I encountered an error when connecting to OpenAI: '' @ exn_str w e)
                messages [messages])
      | Inr [] \<Rightarrow> Inl IndexError
      | Inr (response_message # _) \<Rightarrow>
          bind (openai_tool_loop w
                  (case oa_tool_calls response_message of None \<Rightarrow> [] | Some tcs \<Rightarrow> tcs)
                  \<lparr>st_log = messages,
                   st_final_text =
                     (case oa_content response_message of
                        None \<Rightarrow> [] | Some s \<Rightarrow> (if s \<noteq> [] then [PStr s] else [])),
                   st_sent = [messages], st_called = []\<rparr>) finish)"

section \<open>The Anthropic adapter\<close>

definition anthropic_tools :: "tool list \<Rightarrow> pyval list" where
  "anthropic_tools available_tools =
     map (\<lambda>t. PDict [(''name'', PStr (tool_name t)),
                     (''description'', PStr (tool_description t)),
                     (''input_schema'', tool_input_schema t)])
         available_tools"

text \<open>\<open>response.content[0].text\<close>\<close>

fun first_block_text :: "block list \<Rightarrow> exn + string" where
  "first_block_text [] = Inl IndexError"
| "first_block_text (TextBlock t # bs) = Inr t"
| "first_block_text (ToolUseBlock n i (Some t) # bs) = Inr t"
| "first_block_text (b # bs) = Inl AttributeError"

definition claude_followup :: "world \<Rightarrow> message list \<Rightarrow> pyval" where
  "claude_followup w messages =
     (case bind (anthropic_create w messages None) first_block_text of
        Inl e \<Rightarrow> followup_error w e
      | Inr t \<Rightarrow> PStr t)"

fun claude_block_step :: "world \<Rightarrow> block \<Rightarrow> loop_state \<Rightarrow> exn + loop_state" where
  "claude_block_step w (TextBlock t) st =
     Inr (st\<lparr>st_final_text := st_final_text st @ [PStr t]\<rparr>)"
| "claude_block_step w (ToolUseBlock name args txt) st =
     bind (call_tool w (PStr name) args) (\<lambda>result_content.
     let final1 = st_final_text st @ [PStr (calling_marker w (PStr name) args)];
         log1 = st_log st @
           (case txt of
              None \<Rightarrow> []
            | Some t \<Rightarrow> (if t \<noteq> [] then [[(''role'', PStr ''assistant''), (''content'', PStr t)]]
                         else []))
           @ [[(''role'', PStr ''user''), (''content'', result_content)]]
     in Inr \<lparr>st_log = log1,
             st_final_text = final1 @ [claude_followup w log1],
             st_sent = st_sent st @ [log1],
             st_called = st_called st @ [(PStr name, args)]\<rparr>)"
| "claude_block_step w OtherBlock st = Inr st"

fun claude_block_loop :: "world \<Rightarrow> block list \<Rightarrow> loop_state \<Rightarrow> exn + loop_state" where
  "claude_block_loop w [] st = Inr st"
| "claude_block_loop w (b # rest) st =
     (case claude_block_step w b st of
        Inl e \<Rightarrow> Inl e
      | Inr st' \<Rightarrow> claude_block_loop w rest st')"

definition process_with_claude :: "world \<Rightarrow> tool list \<Rightarrow> message list \<Rightarrow> exn + outcome" where
  "process_with_claude w available_tools messages =
     (case anthropic_create w messages (Some (anthropic_tools available_tools)) of
        Inl e \<Rightarrow>
          Inr (error_outcome
                (''Sorry, I encountered an error when connecting to Claude: '' @ exn_str w e)
                messages [messages])
      | Inr blocks \<Rightarrow>
          bind (claude_block_loop w blocks
                  \<lparr>st_log = messages, st_final_text = [],
                   st_sent = [messages], st_called = []\<rparr>) finish)"

section \<open>The Llama adapter\<close>

text \<open>This adapter works on its own copy of the messages, \<open>formatted_messages\<close>, which is
  the log of the loop state here; the caller's list is never changed.\<close>

definition llama_functions :: "tool list \<Rightarrow> pyval list" where
  "llama_functions available_tools =
     map (\<lambda>t. PDict [(''name'', PStr (tool_name t)),
                     (''description'', PStr (tool_description t)),
                     (''parameters'', tool_input_schema t)])
         available_tools"

definition format_message :: "message \<Rightarrow> exn + message" where
  "format_message msg =
     bind (getitem (PDict msg) ''role'') (\<lambda>r.
     bind (getitem (PDict msg) ''content'') (\<lambda>c.
     Inr [(''role'', r), (''content'', c)]))"

definition llama_followup :: "world \<Rightarrow> pyval list \<Rightarrow> message list \<Rightarrow> pyval" where
  "llama_followup w functions formatted_messages =
     (case bind (post w functions formatted_messages) (\<lambda>response.
           bind (raise_for_status w response) (\<lambda>_.
           bind (response_json w response) (\<lambda>response_data.
           bind (first_choice_message response_data) (\<lambda>assistant_message.
           getitem assistant_message ''content'')))) of
        Inl e \<Rightarrow> followup_error w e
      | Inr c \<Rightarrow> c)"

text \<open>\<open>json.loads\<close> of a tool call's arguments: only a string can be parsed.\<close>

fun loads_arguments :: "world \<Rightarrow> pyval \<Rightarrow> exn + pyval" where
  "loads_arguments w (PStr s) = json_loads w s"
| "loads_arguments w v = Inl TypeError"

definition llama_tool_step :: "world \<Rightarrow> pyval list \<Rightarrow> pyval \<Rightarrow> loop_state \<Rightarrow> exn + loop_state" where
  "llama_tool_step w functions tool_call st =
     bind (getitem tool_call ''function'') (\<lambda>f.
     bind (getitem f ''name'') (\<lambda>name.
     bind (getitem f ''arguments'') (\<lambda>tool_args.
     bind (loads_arguments w tool_args) (\<lambda>parsed.
     bind (call_tool w name parsed) (\<lambda>result_content.
     bind (getitem tool_call ''id'') (\<lambda>call_id.
     let final1 = st_final_text st @ [PStr (calling_marker w name tool_args)];
         log1 = st_log st @
           [[(''role'', PStr ''assistant''), (''content'', PNone),
             (''tool_calls'', PList [PDict [(''id'', call_id), (''type'', PStr ''function''),
                (''function'', PDict [(''name'', name), (''arguments'', tool_args)])]])],
            [(''role'', PStr ''tool''), (''content'', result_content),
             (''tool_call_id'', call_id)]]
     in Inr \<lparr>st_log = log1,
             st_final_text = final1 @ [llama_followup w functions log1],
             st_sent = st_sent st @ [log1],
             st_called = st_called st @ [(name, parsed)]\<rparr>))))))"

fun llama_tool_loop :: "world \<Rightarrow> pyval list \<Rightarrow> pyval list \<Rightarrow> loop_state \<Rightarrow> exn + loop_state" where
  "llama_tool_loop w functions [] st = Inr st"
| "llama_tool_loop w functions (tool_call # rest) st =
     (case llama_tool_step w functions tool_call st of
        Inl e \<Rightarrow> Inl e
      | Inr st' \<Rightarrow> llama_tool_loop w functions rest st')"

text \<open>\<open>k in v and v[k]\<close>, as a truth value.\<close>

definition present_and_true :: "string \<Rightarrow> pyval \<Rightarrow> exn + pyval option" where
  "present_and_true k v =
     bind (contains k v) (\<lambda>has.
     if has then bind (getitem v k) (\<lambda>x. Inr (if truthy x then Some x else None))
     else Inr None)"

definition llama_first_request :: "world \<Rightarrow> pyval list \<Rightarrow> message list \<Rightarrow> exn + pyval" where
  "llama_first_request w functions formatted_messages =
     bind (post w functions formatted_messages) (\<lambda>response.
     bind (raise_for_status w response) (\<lambda>_.
     response_json w response))"

definition process_with_llama :: "world \<Rightarrow> tool list \<Rightarrow> message list \<Rightarrow> exn + outcome" where
  "process_with_llama w available_tools messages =
     (let functions = llama_functions available_tools
      in bind (mapM format_message messages) (\<lambda>formatted_messages.
         case llama_first_request w functions formatted_messages of
           Inl (RequestException m) \<Rightarrow>
             Inr (error_outcome
                   (''Sorry, I encountered an error when connecting to Llama API: '' @ m)
                   messages [formatted_messages])
         | Inl (JSONDecodeError m) \<Rightarrow>
             Inr (error_outcome
                   (''Sorry, I encountered an error parsing the response from Llama API: '' @ m)
                   messages [formatted_messages])
         | Inl e \<Rightarrow> Inl e
         | Inr response_data \<Rightarrow>
             bind (contains ''error'' response_data) (\<lambda>has_error.
             if has_error then
               bind (getitem response_data ''error'') (\<lambda>err.
               Inr (error_outcome
                     (''Sorry, I encountered an error when connecting to Llama API: ''
                        @ fstr (pystr w) err)
                     messages [formatted_messages]))
             else
               bind (first_choice_message response_data) (\<lambda>assistant_message.
               bind (present_and_true ''content'' assistant_message) (\<lambda>c.
               bind (present_and_true ''tool_calls'' assistant_message) (\<lambda>tcs.
               bind (case tcs of None \<Rightarrow> Inr [] | Some v \<Rightarrow> iterate v) (\<lambda>tool_calls.
               bind (llama_tool_loop w functions tool_calls
                       \<lparr>st_log = formatted_messages,
                        st_final_text = (case c of None \<Rightarrow> [] | Some v \<Rightarrow> [v]),
                        st_sent = [formatted_messages], st_called = []\<rparr>) (\<lambda>st.
               bind (finish st) (\<lambda>out. Inr (out\<lparr>log := messages\<rparr>))))))))))"

section \<open>\<open>process_query\<close> and the presentation of \<open>chat_loop\<close>\<close>

datatype provider = Anthropic | OpenAI | Llama | Groq

text \<open>The content of the last message with role \<open>tool\<close>, \<open>None\<close> when there is none.\<close>

definition last_tool_result :: "message list \<Rightarrow> pyval" where
  "last_tool_result messages =
     (case filter (\<lambda>m. get_or m ''role'' PNone = PStr ''tool'') (rev messages) of
        [] \<Rightarrow> PNone
      | m # _ \<Rightarrow> get_or m ''content'' PNone)"

definition process_query :: "world \<Rightarrow> provider \<Rightarrow> string \<Rightarrow> exn + (string \<times> pyval)" where
  "process_query w llm_provider query =
     (let messages = [[(''role'', PStr ''user''), (''content'', PStr query)]]
      in bind (list_tools w) (\<lambda>available_tools.
         bind (case llm_provider of
                 Anthropic \<Rightarrow> process_with_claude w available_tools messages
               | Llama \<Rightarrow> process_with_llama w available_tools messages
               | Groq \<Rightarrow> process_with_groq w available_tools messages
               | OpenAI \<Rightarrow> process_with_openai w available_tools messages) (\<lambda>out.
         Inr (answer out, last_tool_result (log out)))))"

text \<open>
  The pattern \<open>^<tool-use.*?>.*?</tool-use>$|^<tool-use\s*/?>$\<close>, matched from the start of
  the text, the dot matching every character and letters matching in either case. A
  match of the first alternative is a text \<open><tool-use\<close> a \<open>>\<close> b \<open></tool-use>\<close>, for any
  texts a and b; a match of the second is \<open><tool-use\<close>, white space, an optional slash and
  \<open>>\<close>. The end of the pattern matches at the end of the text or before a last newline.
\<close>

definition at_end :: "string \<Rightarrow> string \<Rightarrow> bool" where
  "at_end p s \<longleftrightarrow> s = p \<or> s = p @ NL"

definition closes_tag :: "string \<Rightarrow> bool" where
  "closes_tag r \<longleftrightarrow>
     (\<exists>n \<in> set [0 ..< length r]. r ! n = CHR ''>'' \<and>
        (\<exists>k \<in> set [Suc n ..< Suc (length r)]. at_end ''</tool-use>'' (drop k r)))"

definition tool_use_match :: "string \<Rightarrow> bool" where
  "tool_use_match s \<longleftrightarrow>
     (let t = lower s
      in prefix ''<tool-use'' t \<and>
         (closes_tag (drop 9 t)
          \<or> at_end ''>'' (dropWhile isspace (drop 9 t))
          \<or> at_end ''/>'' (dropWhile isspace (drop 9 t))))"

definition marker_line :: "string \<Rightarrow> bool" where
  "marker_line line \<longleftrightarrow> startswith line ''[Calling tool ''"

definition cleaned :: "string \<Rightarrow> string" where
  "cleaned llm_response = join NL (filter (\<lambda>line. \<not> marker_line line) (splitlines llm_response))"

text \<open>What one turn of \<open>chat_loop\<close> prints between the two rules, given the pair
  \<open>process_query\<close> returned. The concatenation needs a string.\<close>

definition present :: "string \<Rightarrow> pyval \<Rightarrow> exn + string" where
  "present llm_response last_tool =
     (let cleaned_stripped = lower (strip (cleaned llm_response))
      in if (cleaned_stripped = [] \<or> tool_use_match cleaned_stripped) \<and> truthy last_tool then
           (case last_tool of PStr s \<Rightarrow> Inr (''[Tool Result] '' @ s) | _ \<Rightarrow> Inl TypeError)
         else Inr (strip (cleaned llm_response)))"

text \<open>\<open>tool_call["function"]["arguments"]\<close>\<close>

definition tool_call_arguments :: "pyval \<Rightarrow> exn + pyval" where
  "tool_call_arguments tc = bind (getitem tc ''function'') (\<lambda>f. getitem f ''arguments'')"

section \<open>Vocabulary for the statements about the client\<close>

definition is_user :: "message \<Rightarrow> bool" where
  "is_user m \<longleftrightarrow> get_or m ''role'' PNone = PStr ''user''"

definition user_or_assistant :: "message \<Rightarrow> bool" where
  "user_or_assistant m \<longleftrightarrow>
     get_or m ''role'' PNone = PStr ''user'' \<or> get_or m ''role'' PNone = PStr ''assistant''"

text \<open>
  A scripted environment, for concrete runs. The model provider answers the first
  request (one message) with a reply that asks for one tool call and has no text, and
  every later request with a reply that has a text and asks for one more tool call. The
  bodies \<open>reply 1\<close> and \<open>reply 2\<close> stand for the two JSON documents, the parser being part
  of the environment. The tool server answers every call with one text item.
\<close>

definition scripted_reply :: "pyval \<Rightarrow> pyval \<Rightarrow> pyval" where
  "scripted_reply c tcs =
     PDict [(''choices'', PList [PDict [(''message'',
       PDict [(''role'', PStr ''assistant''), (''content'', c), (''tool_calls'', tcs)])]])]"

definition alerts_call :: "string \<Rightarrow> string \<Rightarrow> pyval" where
  "alerts_call call_id state =
     PDict [(''id'', PStr call_id), (''type'', PStr ''function''),
            (''function'', PDict [(''name'', PStr ''get_alerts''),
                                 (''arguments'', PDict [(''state'', PStr state)])])]"

definition scripted_world :: world where
  "scripted_world =
     \<lparr>post = (\<lambda>tools msgs. Inr \<lparr>status_code = 200,
                 body = (if length msgs = 1 then ''reply 1'' else ''reply 2'')\<rparr>),
      http_error = (\<lambda>r. ''HTTP error''),
      loads = (\<lambda>s. if s = ''reply 1''
                    then Inr (scripted_reply PNone (PList [alerts_call ''call_1'' ''CA'']))
                    else if s = ''reply 2''
                    then Inr (scripted_reply (PStr ''Checking Nevada too.'')
                               (PList [alerts_call ''call_2'' ''NV'']))
                    else Inl ''Expecting value''),
      json_error_is_request_exception = True,
      dumps = (\<lambda>v. Inr ''{}''),
      list_tools = Inr [\<lparr>tool_name = ''get_alerts'',
                        tool_description = ''Get weather alerts for a US state.'',
                        tool_input_schema = PDict []\<rparr>],
      call_tool = (\<lambda>name args. Inr (PList [PText ''No active alerts for this state.''])),
      anthropic_create = (\<lambda>msgs tools. case tools of
                            Some t \<Rightarrow> Inr [ToolUseBlock ''get_alerts''
                                             (PDict [(''state'', PStr ''CA'')]) None]
                          | None \<Rightarrow> Inr [TextBlock ''There are no active alerts in CA.'']),
      openai_create = (\<lambda>msgs tools. Inr []),
      pystr = (\<lambda>v. ''{...}''),
      builtin_str = (\<lambda>e. ''error'')\<rparr>"

definition user_query :: "string \<Rightarrow> message list" where
  "user_query query = [[(''role'', PStr ''user''), (''content'', PStr query)]]"

text \<open>The tool calls a reply of the Anthropic SDK asks for, in order, and the blocks of
  a reply, none when the request raised.\<close>

fun tool_uses :: "block list \<Rightarrow> (string \<times> pyval) list" where
  "tool_uses [] = []"
| "tool_uses (ToolUseBlock name args txt # bs) = (name, args) # tool_uses bs"
| "tool_uses (b # bs) = tool_uses bs"

definition reply_blocks :: "exn + block list \<Rightarrow> block list" where
  "reply_blocks r = (case r of Inl e \<Rightarrow> [] | Inr blocks \<Rightarrow> blocks)"

text \<open>
  The turns \<open>sanitize_messages\<close> tells apart: by role, and for an assistant turn by
  whether it carries tool calls (its \<open>tool_calls\<close> field is there and is not \<open>None\<close>;
  an empty list counts) and by whether its content is blank (missing, not a string, empty
  or only white space).
\<close>

definition is_tool :: "message \<Rightarrow> bool" where
  "is_tool m \<longleftrightarrow> get_or m ''role'' PNone = PStr ''tool''"

definition is_assistant :: "message \<Rightarrow> bool" where
  "is_assistant m \<longleftrightarrow> get_or m ''role'' PNone = PStr ''assistant''"

definition with_tool_calls :: "message \<Rightarrow> bool" where
  "with_tool_calls m \<longleftrightarrow> is_assistant m \<and> get_or m ''tool_calls'' PNone \<noteq> PNone"

definition plain_assistant :: "message \<Rightarrow> bool" where
  "plain_assistant m \<longleftrightarrow> is_assistant m \<and> get_or m ''tool_calls'' PNone = PNone"

definition blank_content :: "message \<Rightarrow> bool" where
  "blank_content m \<longleftrightarrow>
     (case get_or m ''content'' PNone of PStr s \<Rightarrow> strip s = [] | _ \<Rightarrow> True)"

definition forwarded :: "message \<Rightarrow> bool" where
  "forwarded m \<longleftrightarrow>
     is_user m \<or> is_tool m \<or> with_tool_calls m \<or> (plain_assistant m \<and> \<not> blank_content m)"

text \<open>
  What an adapter returns after a failure of its first request: it returns, with the
  one text as its answer and as its only segment, the log as it was, and the text begins
  with \<open>Sorry, I encountered an error\<close>.
\<close>

definition sorry_reply :: "exn + outcome \<Rightarrow> string \<Rightarrow> message list \<Rightarrow> bool" where
  "sorry_reply res text messages \<longleftrightarrow>
     (case res of
        Inl e \<Rightarrow> False
      | Inr out \<Rightarrow> answer out = text \<and> segments out = [PStr text] \<and> log out = messages
          \<and> prefix ''Sorry, I encountered an error'' text)"





section \<open>Facts about results\<close>

lemma bind_Inr: "bind x f = Inr y \<Longrightarrow> \<exists>v. x = Inr v \<and> f v = Inr y"
  by (cases x) auto

lemma bind_Inr_iff: "bind x f = Inr y \<longleftrightarrow> (\<exists>v. x = Inr v \<and> f v = Inr y)"
  by (cases x) auto

lemma mapM_Inr: "mapM f xs = Inr ys \<Longrightarrow> y \<in> set ys \<Longrightarrow> \<exists>x \<in> set xs. f x = Inr y"
proof (induction xs arbitrary: ys)
  case Nil
  then show ?case by simp
next
  case (Cons x xs)
  from Cons.prems(1) obtain v vs where v: "f x = Inr v" and vs: "mapM f xs = Inr vs"
    and ys: "ys = v # vs"
    by (auto dest!: bind_Inr)
  with Cons show ?case by auto
qed

lemma mapM_Cons_Inr:
  "mapM f (x # xs) = Inr ys \<longleftrightarrow> (\<exists>v vs. f x = Inr v \<and> mapM f xs = Inr vs \<and> ys = v # vs)"
  by (auto simp: bind_Inr_iff)

lemma mapM_list_all2: "mapM f xs = Inr ys \<longleftrightarrow> list_all2 (\<lambda>x y. f x = Inr y) xs ys"
proof (induction xs arbitrary: ys)
  case Nil
  then show ?case by auto
next
  case (Cons x xs)
  show ?case
    unfolding mapM_Cons_Inr by (auto simp: Cons.IH list_all2_Cons1)
qed

lemma get_or_filter:
  "k \<noteq> k' \<Longrightarrow> get_or (filter (\<lambda>kv. fst kv \<noteq> k') m) k d = get_or m k d"
  by (induction m) (auto simp: get_or_def)

section \<open>Properties of the weather server\<close>

lemma map_of_key: "map_of d k = Some v \<Longrightarrow> k \<in> fst ` set d"
  by (metis domI dom_map_of_conv_image_fst)

lemma get_alerts_upstream_failure:
  "nws (NWS_API_BASE @ ''/alerts/active/area/'' @ state) = None \<Longrightarrow>
   get_alerts nws sf state = Inr ''Unable to fetch alerts or no alerts found.''"
  by (simp add: get_alerts_def)

lemma get_forecast_upstream_failure:
  "nws (NWS_API_BASE @ ''/points/'' @ fmt latitude @ '','' @ fmt longitude) = None \<Longrightarrow>
   get_forecast nws sf fmt latitude longitude
     = Inr ''Unable to fetch forecast data for this location.''"
  by (simp add: get_forecast_def)

text \<open>
  Claim C2. The tool operations never raise: each returns a string, also on a malformed
  upstream response. The code does not keep this: \<open>get_alerts\<close> checks that the response
  has \<open>features\<close> but reads \<open>properties\<close> of every feature unguarded, and \<open>get_forecast\<close>
  reads \<open>properties\<close> and \<open>forecast\<close> of the points response unguarded. On a response
  that lacks them the operation raises \<open>KeyError\<close>.
\<close>

theorem tool_operations_raise_on_malformed_response:
  "get_alerts (\<lambda>url. Some (PDict [(''features'', PList [PDict []])])) sf ''CA''
     = Inl (KeyError ''properties'')
   \<and> get_forecast (\<lambda>url. Some (PDict [(''properties'', PDict [])])) sf fmt latitude longitude
     = Inl (KeyError ''forecast'')"
  by (simp add: get_alerts_def get_forecast_def format_alert_def)

text \<open>
  Claim C8. For the query \<open>alerts in CA\<close>, when the upstream response for the state CA is
  an object whose \<open>features\<close> list is empty, the answer of the chat endpoint is exactly
  \<open>No active alerts for this state.\<close>
\<close>

theorem chat_alerts_in_CA_empty_features:
  assumes "nws ''https://api.weather.gov/alerts/active/area/CA'' = Some (PDict d)"
    and "map_of d ''features'' = Some (PList [])"
  shows "chat nws sf parse_float fmt forecast_branch ''alerts in CA''
           = Inr ''No active alerts for this state.''"
proof -
  have key: "''features'' \<in> fst ` set d"
    using assms(2) by (rule map_of_key)
  have query: "startswith (lower ''alerts in CA'') ''alerts in''"
    by (simp add: startswith_def lower_def lower_char_def capitals_def smalls_def)
  have state: "bind (last_item (split_ws ''alerts in CA'')) (\<lambda>w. get_alerts nws sf (upper w))
                 = get_alerts nws sf ''CA''"
    by (simp add: split_ws_def isspace_def last_item_def upper_def upper_char_def
        capitals_def smalls_def)
  have nonempty: "d \<noteq> []"
    using assms(2) by auto
  have has: "contains ''features'' (PDict d) = Inr True"
    using key by simp
  have features: "getitem (PDict d) ''features'' = Inr (PList [])"
    using assms(2) by simp
  have "get_alerts nws sf ''CA'' = Inr ''No active alerts for this state.''"
    by (simp add: get_alerts_def NWS_API_BASE_def Let_def assms(1) nonempty has features
        del: contains.simps getitem.simps)
  with query state show ?thesis
    by (simp add: chat_def)
qed

theorem chat_alerts_in_CA_empty_features_witness:
  "chat (\<lambda>url. if url = ''https://api.weather.gov/alerts/active/area/CA''
               then Some (PDict [(''type'', PStr ''FeatureCollection''), (''features'', PList [])])
               else None)
        (\<lambda>v. ''?'') (\<lambda>s. None :: rat option) (\<lambda>x. ''0.0'') (\<lambda>q. Inr ''forecast'')
        ''alerts in CA''
     = Inr ''No active alerts for this state.''"
  using chat_alerts_in_CA_empty_features
    [of "\<lambda>url. if url = ''https://api.weather.gov/alerts/active/area/CA''
               then Some (PDict [(''type'', PStr ''FeatureCollection''), (''features'', PList [])])
               else None"
        "[(''type'', PStr ''FeatureCollection''), (''features'', PList [])]"]
  by simp

lemma run_tool_depends_on_the_upstream:
  "run_tool (\<lambda>url. None) sf fmt (GetAlerts ''CA'')
     \<noteq> run_tool (\<lambda>url. Some (PDict [(''features'', PList [])])) sf fmt (GetAlerts ''CA'')
   \<and> run_tool (\<lambda>url. None) sf fmt (GetForecast latitude longitude)
     \<noteq> run_tool (\<lambda>url. Some (PDict [(''properties'', PDict [])])) sf fmt
          (GetForecast latitude longitude)"
  by (simp add: get_alerts_def get_forecast_def)

text \<open>
  Claim C10. \<open>get_historical_weather\<close> is a function of its two arguments only. Run as a
  tool against any two upstream services (one that answers and one that fails, or the same
  service at two different moments) and with any two printers of values, it returns the
  same result: nothing of the network reaches it, where the results of the other two tools
  change with the upstream (\<open>run_tool_depends_on_the_upstream\<close>). It never raises. Its
  result is the fixed template with the two coordinates, as printed, in their places, and
  contains the three fixed lines.
\<close>

theorem get_historical_weather_fixed_template:
  "run_tool nws sf fmt (GetHistoricalWeather latitude longitude)
     = run_tool nws' sf' fmt (GetHistoricalWeather latitude longitude)
   \<and> run_tool nws sf fmt (GetHistoricalWeather latitude longitude)
     = Inr (NL @ ''Yesterday at ('' @ fmt latitude @ '', '' @ fmt longitude @ ''):'' @ NL
            @ ''Temperature: 68'' @ [CHR 0xB0] @ ''F'' @ NL
            @ ''Wind: 5 mph NW'' @ NL
            @ ''Conditions: Partly cloudy, no precipitation.'' @ NL)
   \<and> get_historical_weather fmt latitude longitude
     = NL @ ''Yesterday at ('' @ fmt latitude @ '', '' @ fmt longitude @ ''):'' @ NL
       @ ''Temperature: 68'' @ [CHR 0xB0] @ ''F'' @ NL
       @ ''Wind: 5 mph NW'' @ NL
       @ ''Conditions: Partly cloudy, no precipitation.'' @ NL
   \<and> sublist (''Temperature: 68'' @ [CHR 0xB0] @ ''F'')
        (get_historical_weather fmt latitude longitude)
   \<and> sublist ''Wind: 5 mph NW'' (get_historical_weather fmt latitude longitude)
   \<and> sublist ''Conditions: Partly cloudy, no precipitation.''
        (get_historical_weather fmt latitude longitude)"
proof -
  have a: "sublist (''Temperature: 68'' @ [CHR 0xB0] @ ''F'')
             (get_historical_weather fmt latitude longitude)"
    unfolding get_historical_weather_def by (metis append.assoc sublist_appendI)
  have b: "sublist ''Wind: 5 mph NW'' (get_historical_weather fmt latitude longitude)"
    unfolding get_historical_weather_def by (metis append.assoc sublist_appendI)
  have c: "sublist ''Conditions: Partly cloudy, no precipitation.''
             (get_historical_weather fmt latitude longitude)"
    unfolding get_historical_weather_def by (metis append.assoc sublist_appendI)
  from a b c show ?thesis
    by (simp add: get_historical_weather_def)
qed

section \<open>Properties of \<open>sanitize_messages\<close>\<close>

lemma sanitize_messages_Nil: "sanitize_messages enc [] = Inr []"
  by (simp add: sanitize_messages_def)

lemma sanitize_messages_Cons_Inr:
  "sanitize_messages enc (m # msgs) = Inr out \<longleftrightarrow>
     (\<exists>x rest. sanitize_message enc m = Inr x \<and> sanitize_messages enc msgs = Inr rest
        \<and> out = x @ rest)"
  by (auto simp: sanitize_messages_def bind_Inr_iff)

text \<open>What \<open>sanitize_messages\<close> does with one message, by the kind of the message.\<close>

lemma sanitize_message_user:
  "is_user m \<Longrightarrow>
   sanitize_message enc m
     = Inr [[(''role'', PStr ''user''), (''content'', get_or m ''content'' (PStr ''''))]]"
  by (simp add: sanitize_message_def is_user_def Let_def get_or_filter)

lemma sanitize_message_tool:
  "is_tool m \<Longrightarrow>
   sanitize_message enc m
     = Inr [[(''role'', PStr ''tool''), (''content'', get_or m ''content'' (PStr '''')),
             (''tool_call_id'', get_or m ''tool_call_id'' PNone)]]"
  by (simp add: sanitize_message_def is_tool_def Let_def get_or_filter)

lemma sanitize_message_plain:
  "plain_assistant m \<Longrightarrow>
   sanitize_message enc m
     = Inr (if blank_content m then []
            else [[(''role'', PStr ''assistant''), (''content'', get_or m ''content'' PNone)]])"
  by (auto simp: sanitize_message_def plain_assistant_def is_assistant_def blank_content_def
      Let_def get_or_filter split: pyval.splits)

lemma sanitize_message_calls:
  "with_tool_calls m \<Longrightarrow>
   sanitize_message enc m
     = bind (iterate (get_or m ''tool_calls'' PNone)) (\<lambda>tcs.
       bind (mapM (sanitize_tool_call enc) tcs) (\<lambda>tool_calls.
       Inr [[(''role'', PStr ''assistant''), (''content'', PNone),
             (''tool_calls'', PList tool_calls)]]))"
  by (simp add: sanitize_message_def with_tool_calls_def is_assistant_def Let_def get_or_filter)

lemma sanitize_message_other:
  "\<not> is_user m \<Longrightarrow> \<not> is_assistant m \<Longrightarrow> \<not> is_tool m \<Longrightarrow> sanitize_message enc m = Inr []"
  by (simp add: sanitize_message_def is_user_def is_assistant_def is_tool_def Let_def)

lemma message_kinds:
  obtains (user) "is_user m" "\<not> is_tool m" "\<not> is_assistant m"
  | (tool) "is_tool m" "\<not> is_user m" "\<not> is_assistant m"
  | (plain) "plain_assistant m" "is_assistant m" "\<not> with_tool_calls m" "\<not> is_user m" "\<not> is_tool m"
  | (calls) "with_tool_calls m" "is_assistant m" "\<not> plain_assistant m" "\<not> is_user m" "\<not> is_tool m"
  | (other) "\<not> is_user m" "\<not> is_assistant m" "\<not> is_tool m"
  unfolding is_user_def is_tool_def is_assistant_def plain_assistant_def with_tool_calls_def
  by (cases "get_or m ''role'' PNone = PStr ''assistant''") auto

text \<open>The entries one message gives: their roles, and the entries of each kind.\<close>

lemma sanitize_message_entries:
  assumes "sanitize_message enc m = Inr x"
  shows "map (\<lambda>e. get_or e ''role'' PNone) x
           = (if forwarded m then [get_or m ''role'' PNone] else [])"
    and "filter is_user x
           = (if is_user m
              then [[(''role'', PStr ''user''), (''content'', get_or m ''content'' (PStr ''''))]]
              else [])"
    and "filter is_tool x
           = (if is_tool m
              then [[(''role'', PStr ''tool''), (''content'', get_or m ''content'' (PStr '''')),
                     (''tool_call_id'', get_or m ''tool_call_id'' PNone)]]
              else [])"
    and "filter plain_assistant x
           = (if plain_assistant m \<and> \<not> blank_content m
              then [[(''role'', PStr ''assistant''), (''content'', get_or m ''content'' PNone)]]
              else [])"
    and "map (\<lambda>e. map_of e ''content'') (filter with_tool_calls x)
           = (if with_tool_calls m then [Some PNone] else [])"
proof -
  have "map (\<lambda>e. get_or e ''role'' PNone) x
           = (if forwarded m then [get_or m ''role'' PNone] else [])
    \<and> filter is_user x
           = (if is_user m
              then [[(''role'', PStr ''user''), (''content'', get_or m ''content'' (PStr ''''))]]
              else [])
    \<and> filter is_tool x
           = (if is_tool m
              then [[(''role'', PStr ''tool''), (''content'', get_or m ''content'' (PStr '''')),
                     (''tool_call_id'', get_or m ''tool_call_id'' PNone)]]
              else [])
    \<and> filter plain_assistant x
           = (if plain_assistant m \<and> \<not> blank_content m
              then [[(''role'', PStr ''assistant''), (''content'', get_or m ''content'' PNone)]]
              else [])
    \<and> map (\<lambda>e. map_of e ''content'') (filter with_tool_calls x)
           = (if with_tool_calls m then [Some PNone] else [])"
  proof (cases m rule: message_kinds)
    case user
    from assms sanitize_message_user[OF user(1), of enc] have
      x: "x = [[(''role'', PStr ''user''), (''content'', get_or m ''content'' (PStr ''''))]]"
      by simp
    from user show ?thesis
      by (simp add: x forwarded_def plain_assistant_def with_tool_calls_def)
        (simp add: is_user_def is_tool_def is_assistant_def get_or_def)
  next
    case tool
    from assms sanitize_message_tool[OF tool(1), of enc] have
      x: "x = [[(''role'', PStr ''tool''), (''content'', get_or m ''content'' (PStr '''')),
                (''tool_call_id'', get_or m ''tool_call_id'' PNone)]]"
      by simp
    from tool show ?thesis
      by (simp add: x forwarded_def plain_assistant_def with_tool_calls_def)
        (simp add: is_user_def is_tool_def is_assistant_def get_or_def)
  next
    case plain
    from assms sanitize_message_plain[OF plain(1), of enc] have
      x: "x = (if blank_content m then []
               else [[(''role'', PStr ''assistant''), (''content'', get_or m ''content'' PNone)]])"
      by simp
    from plain show ?thesis
      by (simp add: x forwarded_def)
        (simp add: is_user_def is_tool_def is_assistant_def plain_assistant_def
          with_tool_calls_def get_or_def)
  next
    case calls
    from assms sanitize_message_calls[OF calls(1), of enc] obtain tcs where
      x: "x = [[(''role'', PStr ''assistant''), (''content'', PNone),
                (''tool_calls'', PList tcs)]]"
      by (auto dest!: bind_Inr)
    from calls show ?thesis
      by (simp add: x forwarded_def)
        (simp add: is_user_def is_tool_def is_assistant_def plain_assistant_def
          with_tool_calls_def get_or_def)
  next
    case other
    from assms sanitize_message_other[OF other, of enc] have x: "x = []"
      by simp
    from other show ?thesis
      by (simp add: x forwarded_def plain_assistant_def with_tool_calls_def)
  qed
  then show "map (\<lambda>e. get_or e ''role'' PNone) x
           = (if forwarded m then [get_or m ''role'' PNone] else [])"
    and "filter is_user x
           = (if is_user m
              then [[(''role'', PStr ''user''), (''content'', get_or m ''content'' (PStr ''''))]]
              else [])"
    and "filter is_tool x
           = (if is_tool m
              then [[(''role'', PStr ''tool''), (''content'', get_or m ''content'' (PStr '''')),
                     (''tool_call_id'', get_or m ''tool_call_id'' PNone)]]
              else [])"
    and "filter plain_assistant x
           = (if plain_assistant m \<and> \<not> blank_content m
              then [[(''role'', PStr ''assistant''), (''content'', get_or m ''content'' PNone)]]
              else [])"
    and "map (\<lambda>e. map_of e ''content'') (filter with_tool_calls x)
           = (if with_tool_calls m then [Some PNone] else [])"
    by blast+
qed

text \<open>From one message to the list.\<close>

lemma sanitize_messages_collect:
  assumes "sanitize_messages enc msgs = Inr out"
    and "\<And>m x. sanitize_message enc m = Inr x \<Longrightarrow>
           map f (filter P x) = (if Q m then [g m] else [])"
  shows "map f (filter P out) = map g (filter Q msgs)"
  using assms(1)
proof (induction msgs arbitrary: out)
  case Nil
  then show ?case by (simp add: sanitize_messages_Nil)
next
  case (Cons m msgs)
  from Cons.prems obtain x rest where x: "sanitize_message enc m = Inr x"
    and rest: "sanitize_messages enc msgs = Inr rest" and out: "out = x @ rest"
    unfolding sanitize_messages_Cons_Inr by blast
  from Cons.IH[OF rest] assms(2)[OF x] show ?case
    by (simp add: out)
qed

lemma sanitize_messages_returns:
  assumes "\<forall>m \<in> set msgs. \<not> with_tool_calls m"
  shows "\<exists>out. sanitize_messages enc msgs = Inr out"
  using assms
proof (induction msgs)
  case Nil
  then show ?case by (simp add: sanitize_messages_Nil)
next
  case (Cons m msgs)
  then obtain rest where rest: "sanitize_messages enc msgs = Inr rest" by auto
  from Cons.prems have "\<not> with_tool_calls m" by simp
  then have "\<exists>x. sanitize_message enc m = Inr x"
    by (cases m rule: message_kinds)
      (simp_all add: sanitize_message_user sanitize_message_tool sanitize_message_plain
        sanitize_message_other)
  with rest show ?case
    unfolding sanitize_messages_Cons_Inr by blast
qed

text \<open>
  Claim C6, as stated: every turn, of any role, whose content is empty or only white
  space is dropped. It fails: a user turn and a tool turn with such content are forwarded.
\<close>

theorem blank_user_and_tool_turns_are_kept:
  "sanitize_messages (\<lambda>v. Inr ''{}'')
     [[(''role'', PStr ''user''), (''content'', PStr '' '')],
      [(''role'', PStr ''tool''), (''content'', PStr ''''), (''tool_call_id'', PStr ''call_1'')]]
   = Inr [[(''role'', PStr ''user''), (''content'', PStr '' '')],
          [(''role'', PStr ''tool''), (''content'', PStr ''''),
           (''tool_call_id'', PStr ''call_1'')]]"
  by (simp add: sanitize_messages_def sanitize_message_def get_or_def)

text \<open>The sanitization returns a list or raises as a whole: a tool call that lacks a field
  in a later turn loses the turns before it too.\<close>

lemma sanitize_messages_raises_as_a_whole:
  "sanitize_messages (\<lambda>v. Inr ''{}'')
     [[(''role'', PStr ''user''), (''content'', PStr ''alerts in CA'')],
      [(''role'', PStr ''assistant''), (''tool_calls'', PList [PDict [(''id'', PStr ''call_1'')]])]]
   = Inl (KeyError ''function'')"
  by (simp add: sanitize_messages_def sanitize_message_def sanitize_tool_call_def get_or_def)

text \<open>
  Claim C6, amended. The sanitization returns whenever no assistant turn carries tool
  calls. When it returns, the list it returns is made of the input turns that are
  forwarded, in their order and with their roles: every user turn and every tool turn,
  blank or not, with the content it has (the empty string when it has none); every
  assistant turn that carries tool calls (a \<open>tool_calls\<close> field other than \<open>None\<close>, the
  empty list included), with the content \<open>None\<close> whatever its content was; and an
  assistant turn whose \<open>tool_calls\<close> field is missing or \<open>None\<close> only when its content is a
  string with a character that is not white space. Every other turn is dropped: an
  assistant turn without tool calls whose content is missing, not a string, empty or
  only white space, and a turn of any other role.
\<close>

theorem sanitize_messages_by_role:
  "((\<forall>m \<in> set msgs. \<not> with_tool_calls m) \<longrightarrow> (\<exists>res. sanitize_messages enc msgs = Inr res))
   \<and> (sanitize_messages enc msgs = Inr out \<longrightarrow>
        map (\<lambda>e. get_or e ''role'' PNone) out
          = map (\<lambda>m. get_or m ''role'' PNone) (filter forwarded msgs)
      \<and> filter is_user out
          = map (\<lambda>m. [(''role'', PStr ''user''), (''content'', get_or m ''content'' (PStr ''''))])
              (filter is_user msgs)
      \<and> filter is_tool out
          = map (\<lambda>m. [(''role'', PStr ''tool''), (''content'', get_or m ''content'' (PStr '''')),
                       (''tool_call_id'', get_or m ''tool_call_id'' PNone)])
              (filter is_tool msgs)
      \<and> filter plain_assistant out
          = map (\<lambda>m. [(''role'', PStr ''assistant''), (''content'', get_or m ''content'' PNone)])
              (filter (\<lambda>m. plain_assistant m \<and> \<not> blank_content m) msgs)
      \<and> map (\<lambda>e. map_of e ''content'') (filter with_tool_calls out)
          = map (\<lambda>m. Some PNone) (filter with_tool_calls msgs))"
proof (intro conjI impI)
  assume "\<forall>m \<in> set msgs. \<not> with_tool_calls m"
  then show "\<exists>res. sanitize_messages enc msgs = Inr res"
    by (rule sanitize_messages_returns)
next
  assume out: "sanitize_messages enc msgs = Inr out"
  from sanitize_messages_collect[OF out, of "\<lambda>e. get_or e ''role'' PNone" "\<lambda>e. True"
      forwarded "\<lambda>m. get_or m ''role'' PNone"]
  show "map (\<lambda>e. get_or e ''role'' PNone) out
          = map (\<lambda>m. get_or m ''role'' PNone) (filter forwarded msgs)"
    by (simp add: sanitize_message_entries(1))
next
  assume out: "sanitize_messages enc msgs = Inr out"
  from sanitize_messages_collect[OF out, of "\<lambda>e. e" is_user is_user
      "\<lambda>m. [(''role'', PStr ''user''), (''content'', get_or m ''content'' (PStr ''''))]"]
  show "filter is_user out
          = map (\<lambda>m. [(''role'', PStr ''user''), (''content'', get_or m ''content'' (PStr ''''))])
              (filter is_user msgs)"
    by (simp add: sanitize_message_entries(2))
next
  assume out: "sanitize_messages enc msgs = Inr out"
  from sanitize_messages_collect[OF out, of "\<lambda>e. e" is_tool is_tool
      "\<lambda>m. [(''role'', PStr ''tool''), (''content'', get_or m ''content'' (PStr '''')),
             (''tool_call_id'', get_or m ''tool_call_id'' PNone)]"]
  show "filter is_tool out
          = map (\<lambda>m. [(''role'', PStr ''tool''), (''content'', get_or m ''content'' (PStr '''')),
                       (''tool_call_id'', get_or m ''tool_call_id'' PNone)])
              (filter is_tool msgs)"
    by (simp add: sanitize_message_entries(3))
next
  assume out: "sanitize_messages enc msgs = Inr out"
  from sanitize_messages_collect[OF out, of "\<lambda>e. e" plain_assistant
      "\<lambda>m. plain_assistant m \<and> \<not> blank_content m"
      "\<lambda>m. [(''role'', PStr ''assistant''), (''content'', get_or m ''content'' PNone)]"]
  show "filter plain_assistant out
          = map (\<lambda>m. [(''role'', PStr ''assistant''), (''content'', get_or m ''content'' PNone)])
              (filter (\<lambda>m. plain_assistant m \<and> \<not> blank_content m) msgs)"
    by (simp add: sanitize_message_entries(4))
next
  assume out: "sanitize_messages enc msgs = Inr out"
  from sanitize_messages_collect[OF out, of "\<lambda>e. map_of e ''content''" with_tool_calls
      with_tool_calls "\<lambda>m. Some PNone"]
  show "map (\<lambda>e. map_of e ''content'') (filter with_tool_calls out)
          = map (\<lambda>m. Some PNone) (filter with_tool_calls msgs)"
    by (simp add: sanitize_message_entries(5))
qed

theorem sanitize_messages_by_role_witness:
  "(\<exists>res. sanitize_messages (\<lambda>v. Inr ''{}'')
            [[(''role'', PStr ''user''), (''content'', PStr '' '')],
             [(''role'', PStr ''system''), (''content'', PStr ''Be brief'')],
             [(''role'', PStr ''assistant''), (''content'', PStr '' '')]] = Inr res)
   \<and> sanitize_messages (\<lambda>v. Inr ''{}'')
       [[(''role'', PStr ''user''), (''content'', PStr '' '')],
        [(''role'', PStr ''system''), (''content'', PStr ''Be brief'')],
        [(''role'', PStr ''assistant''), (''content'', PStr '' '')],
        [(''role'', PStr ''assistant''), (''content'', PStr ''Sunny'')],
        [(''role'', PStr ''assistant''), (''content'', PStr '' ''), (''tool_calls'', PList [])],
        [(''role'', PStr ''tool''), (''tool_call_id'', PStr ''call_1'')],
        [(''role'', PStr ''assistant''), (''tool_calls'', PNone)]]
     = Inr [[(''role'', PStr ''user''), (''content'', PStr '' '')],
            [(''role'', PStr ''assistant''), (''content'', PStr ''Sunny'')],
            [(''role'', PStr ''assistant''), (''content'', PNone), (''tool_calls'', PList [])],
            [(''role'', PStr ''tool''), (''content'', PStr ''''),
             (''tool_call_id'', PStr ''call_1'')]]
   \<and> map (\<lambda>m. get_or m ''role'' PNone) (filter forwarded
       [[(''role'', PStr ''user''), (''content'', PStr '' '')],
        [(''role'', PStr ''system''), (''content'', PStr ''Be brief'')],
        [(''role'', PStr ''assistant''), (''content'', PStr '' '')],
        [(''role'', PStr ''assistant''), (''content'', PStr ''Sunny'')],
        [(''role'', PStr ''assistant''), (''content'', PStr '' ''), (''tool_calls'', PList [])],
        [(''role'', PStr ''tool''), (''tool_call_id'', PStr ''call_1'')],
        [(''role'', PStr ''assistant''), (''tool_calls'', PNone)]])
     = [PStr ''user'', PStr ''assistant'', PStr ''assistant'', PStr ''tool'']
   \<and> filter is_user
       [[(''role'', PStr ''user''), (''content'', PStr '' '')],
        [(''role'', PStr ''assistant''), (''content'', PStr ''Sunny'')],
        [(''role'', PStr ''assistant''), (''content'', PNone), (''tool_calls'', PList [])],
        [(''role'', PStr ''tool''), (''content'', PStr ''''),
         (''tool_call_id'', PStr ''call_1'')]]
     = [[(''role'', PStr ''user''), (''content'', PStr '' '')]]
   \<and> filter is_tool
       [[(''role'', PStr ''user''), (''content'', PStr '' '')],
        [(''role'', PStr ''assistant''), (''content'', PStr ''Sunny'')],
        [(''role'', PStr ''assistant''), (''content'', PNone), (''tool_calls'', PList [])],
        [(''role'', PStr ''tool''), (''content'', PStr ''''),
         (''tool_call_id'', PStr ''call_1'')]]
     = [[(''role'', PStr ''tool''), (''content'', PStr ''''),
         (''tool_call_id'', PStr ''call_1'')]]
   \<and> filter plain_assistant
       [[(''role'', PStr ''user''), (''content'', PStr '' '')],
        [(''role'', PStr ''assistant''), (''content'', PStr ''Sunny'')],
        [(''role'', PStr ''assistant''), (''content'', PNone), (''tool_calls'', PList [])],
        [(''role'', PStr ''tool''), (''content'', PStr ''''),
         (''tool_call_id'', PStr ''call_1'')]]
     = [[(''role'', PStr ''assistant''), (''content'', PStr ''Sunny'')]]"
proof -
  let ?enc = "\<lambda>v::pyval. (Inr ''{}'' :: exn + string)"
  let ?short = "[[(''role'', PStr ''user''), (''content'', PStr '' '')],
             [(''role'', PStr ''system''), (''content'', PStr ''Be brief'')],
             [(''role'', PStr ''assistant''), (''content'', PStr '' '')]]"
  let ?msgs = "[[(''role'', PStr ''user''), (''content'', PStr '' '')],
        [(''role'', PStr ''system''), (''content'', PStr ''Be brief'')],
        [(''role'', PStr ''assistant''), (''content'', PStr '' '')],
        [(''role'', PStr ''assistant''), (''content'', PStr ''Sunny'')],
        [(''role'', PStr ''assistant''), (''content'', PStr '' ''), (''tool_calls'', PList [])],
        [(''role'', PStr ''tool''), (''tool_call_id'', PStr ''call_1'')],
        [(''role'', PStr ''assistant''), (''tool_calls'', PNone)]]"
  let ?out = "[[(''role'', PStr ''user''), (''content'', PStr '' '')],
            [(''role'', PStr ''assistant''), (''content'', PStr ''Sunny'')],
            [(''role'', PStr ''assistant''), (''content'', PNone), (''tool_calls'', PList [])],
            [(''role'', PStr ''tool''), (''content'', PStr ''''),
             (''tool_call_id'', PStr ''call_1'')]]"
  have blank: "strip '' '' = []" and sunny: "strip ''Sunny'' \<noteq> []"
    by (simp_all add: strip_def isspace_def)
  have none: "\<forall>m \<in> set ?short. \<not> with_tool_calls m"
    by (simp add: with_tool_calls_def is_assistant_def get_or_def)
  have a: "\<exists>res. sanitize_messages ?enc ?short = Inr res"
    using sanitize_messages_by_role[of ?short ?enc] none by blast
  have run: "sanitize_messages ?enc ?msgs = Inr ?out"
    by (simp add: sanitize_messages_def sanitize_message_def get_or_def blank sunny)
  have fwd: "filter forwarded ?msgs
     = [[(''role'', PStr ''user''), (''content'', PStr '' '')],
        [(''role'', PStr ''assistant''), (''content'', PStr ''Sunny'')],
        [(''role'', PStr ''assistant''), (''content'', PStr '' ''), (''tool_calls'', PList [])],
        [(''role'', PStr ''tool''), (''tool_call_id'', PStr ''call_1'')]]"
    by (simp add: forwarded_def is_user_def is_tool_def is_assistant_def with_tool_calls_def
        plain_assistant_def blank_content_def get_or_def blank sunny)
  have usr: "filter is_user ?msgs = [[(''role'', PStr ''user''), (''content'', PStr '' '')]]"
    by (simp add: is_user_def get_or_def)
  have tl: "filter is_tool ?msgs = [[(''role'', PStr ''tool''), (''tool_call_id'', PStr ''call_1'')]]"
    by (simp add: is_tool_def get_or_def)
  have pl: "filter (\<lambda>m. plain_assistant m \<and> \<not> blank_content m) ?msgs
     = [[(''role'', PStr ''assistant''), (''content'', PStr ''Sunny'')]]"
    by (simp add: plain_assistant_def is_assistant_def blank_content_def get_or_def blank sunny)
  from sanitize_messages_by_role[of ?msgs ?enc ?out] run
  have b: "map (\<lambda>e. get_or e ''role'' PNone) ?out
          = map (\<lambda>m. get_or m ''role'' PNone) (filter forwarded ?msgs)"
    and c: "filter is_user ?out
          = map (\<lambda>m. [(''role'', PStr ''user''), (''content'', get_or m ''content'' (PStr ''''))])
              (filter is_user ?msgs)"
    and d: "filter is_tool ?out
          = map (\<lambda>m. [(''role'', PStr ''tool''), (''content'', get_or m ''content'' (PStr '''')),
                       (''tool_call_id'', get_or m ''tool_call_id'' PNone)])
              (filter is_tool ?msgs)"
    and e: "filter plain_assistant ?out
          = map (\<lambda>m. [(''role'', PStr ''assistant''), (''content'', get_or m ''content'' PNone)])
              (filter (\<lambda>m. plain_assistant m \<and> \<not> blank_content m) ?msgs)"
    by blast+
  have b': "map (\<lambda>m. get_or m ''role'' PNone) (filter forwarded ?msgs)
     = [PStr ''user'', PStr ''assistant'', PStr ''assistant'', PStr ''tool'']"
    unfolding b[symmetric] by (simp add: get_or_def)
  have c': "filter is_user ?out = [[(''role'', PStr ''user''), (''content'', PStr '' '')]]"
    unfolding c usr by (simp add: get_or_def)
  have d': "filter is_tool ?out
     = [[(''role'', PStr ''tool''), (''content'', PStr ''''), (''tool_call_id'', PStr ''call_1'')]]"
    unfolding d tl by (simp add: get_or_def)
  have e': "filter plain_assistant ?out
     = [[(''role'', PStr ''assistant''), (''content'', PStr ''Sunny'')]]"
    unfolding e pl by (simp add: get_or_def)
  from a run b' c' d' e' show ?thesis by blast
qed

text \<open>What \<open>sanitize_messages\<close> does to the \<open>function\<close> entry of a tool call. It returns
  for a dictionary only, and only when the encoder returns for arguments that are a
  dictionary. The result is the dictionary without \<open>parameters\<close>, its \<open>arguments\<close> set to
  a string: the encoding of a dictionary, a string as it was, and \<open>{}\<close> for anything else
  or nothing.\<close>

lemma sanitize_function_Inr:
  "sanitize_function enc f = Inr g \<longleftrightarrow>
     (\<exists>d s. f = PDict d
        \<and> (case map_of d ''arguments'' of
              Some (PDict a) \<Rightarrow> enc (PDict a) = Inr s
            | Some (PStr x) \<Rightarrow> s = x
            | _ \<Rightarrow> s = ''{}'')
        \<and> g = PDict (AList.update ''arguments'' (PStr s) (AList.delete ''parameters'' d)))"
proof (cases f)
  case (PDict d)
  have m: "map_of (AList.delete ''parameters'' d) ''arguments'' = map_of d ''arguments''"
    by (simp add: delete_conv')
  show ?thesis
  proof (cases "map_of d ''arguments''")
    case None
    with PDict m show ?thesis by auto
  next
    case (Some v)
    with PDict m show ?thesis
      by (cases v) (auto simp: bind_Inr_iff update_triv)
  qed
qed auto

lemma sanitize_tool_call_Inr:
  "sanitize_tool_call enc tc = Inr tc' \<longleftrightarrow>
     (\<exists>d i t s. getitem tc ''function'' = Inr (PDict d)
        \<and> getitem tc ''id'' = Inr i \<and> getitem tc ''type'' = Inr t
        \<and> (case map_of d ''arguments'' of
              Some (PDict a) \<Rightarrow> enc (PDict a) = Inr s
            | Some (PStr x) \<Rightarrow> s = x
            | _ \<Rightarrow> s = ''{}'')
        \<and> tc' = PDict [(''id'', i), (''type'', t),
                        (''function'', PDict (AList.update ''arguments'' (PStr s)
                                               (AList.delete ''parameters'' d)))])"
  unfolding sanitize_tool_call_def bind_Inr_iff sanitize_function_Inr by auto

lemma sanitize_tool_call_arguments:
  assumes "sanitize_tool_call enc tc = Inr tc'"
  shows "\<exists>d s. getitem tc ''function'' = Inr (PDict d)
           \<and> tool_call_arguments tc' = Inr (PStr s)
           \<and> (case map_of d ''arguments'' of
                 Some (PDict a) \<Rightarrow> enc (PDict a) = Inr s
               | Some (PStr x) \<Rightarrow> s = x
               | _ \<Rightarrow> s = ''{}'')"
proof -
  from assms obtain d i t s where d: "getitem tc ''function'' = Inr (PDict d)"
    and s: "case map_of d ''arguments'' of
              Some (PDict a) \<Rightarrow> enc (PDict a) = Inr s
            | Some (PStr x) \<Rightarrow> s = x
            | _ \<Rightarrow> s = ''{}''"
    and tc': "tc' = PDict [(''id'', i), (''type'', t),
                        (''function'', PDict (AList.update ''arguments'' (PStr s)
                                               (AList.delete ''parameters'' d)))]"
    unfolding sanitize_tool_call_Inr by blast
  have "tool_call_arguments tc' = Inr (PStr s)"
    by (simp add: tc' tool_call_arguments_def update_conv')
  with d s show ?thesis by blast
qed

lemma sanitize_tool_call_returns:
  "(\<exists>tc'. sanitize_tool_call enc tc = Inr tc') \<longleftrightarrow>
     (\<exists>d i t. getitem tc ''function'' = Inr (PDict d)
        \<and> getitem tc ''id'' = Inr i \<and> getitem tc ''type'' = Inr t
        \<and> (\<forall>a. map_of d ''arguments'' = Some (PDict a) \<longrightarrow> (\<exists>s. enc (PDict a) = Inr s)))"
proof
  assume "\<exists>tc'. sanitize_tool_call enc tc = Inr tc'"
  then obtain d i t s where "getitem tc ''function'' = Inr (PDict d)"
    "getitem tc ''id'' = Inr i" "getitem tc ''type'' = Inr t"
    "case map_of d ''arguments'' of
              Some (PDict a) \<Rightarrow> enc (PDict a) = Inr s
            | Some (PStr x) \<Rightarrow> s = x
            | _ \<Rightarrow> s = ''{}''"
    unfolding sanitize_tool_call_Inr by blast
  then show "\<exists>d i t. getitem tc ''function'' = Inr (PDict d)
        \<and> getitem tc ''id'' = Inr i \<and> getitem tc ''type'' = Inr t
        \<and> (\<forall>a. map_of d ''arguments'' = Some (PDict a) \<longrightarrow> (\<exists>s. enc (PDict a) = Inr s))"
    by auto
next
  assume "\<exists>d i t. getitem tc ''function'' = Inr (PDict d)
        \<and> getitem tc ''id'' = Inr i \<and> getitem tc ''type'' = Inr t
        \<and> (\<forall>a. map_of d ''arguments'' = Some (PDict a) \<longrightarrow> (\<exists>s. enc (PDict a) = Inr s))"
  then obtain d i t where d: "getitem tc ''function'' = Inr (PDict d)"
    and i: "getitem tc ''id'' = Inr i" and t: "getitem tc ''type'' = Inr t"
    and e: "\<forall>a. map_of d ''arguments'' = Some (PDict a) \<longrightarrow> (\<exists>s. enc (PDict a) = Inr s)"
    by blast
  have "\<exists>s. case map_of d ''arguments'' of
              Some (PDict a) \<Rightarrow> enc (PDict a) = Inr s
            | Some (PStr x) \<Rightarrow> s = x
            | _ \<Rightarrow> s = ''{}''"
  proof (cases "map_of d ''arguments''")
    case None
    then show ?thesis by simp
  next
    case (Some v)
    with e show ?thesis by (cases v) auto
  qed
  with d i t show "\<exists>tc'. sanitize_tool_call enc tc = Inr tc'"
    unfolding sanitize_tool_call_Inr by blast
qed

lemma mapM_returns: "(\<exists>ys. mapM f xs = Inr ys) \<longleftrightarrow> (\<forall>x \<in> set xs. \<exists>y. f x = Inr y)"
proof (induction xs)
  case Nil
  then show ?case by simp
next
  case (Cons x xs)
  show ?case
    unfolding mapM_Cons_Inr using Cons.IH by auto
qed

lemma sanitize_message_returns:
  "(\<exists>x. sanitize_message enc m = Inr x) \<longleftrightarrow>
     (with_tool_calls m \<longrightarrow>
        (\<exists>tcs. iterate (get_or m ''tool_calls'' PNone) = Inr tcs
           \<and> (\<forall>tc \<in> set tcs. \<exists>tc'. sanitize_tool_call enc tc = Inr tc')))"
proof (cases "with_tool_calls m")
  case True
  then show ?thesis
    by (auto simp: sanitize_message_calls bind_Inr_iff mapM_returns[symmetric])
next
  case False
  then have "\<exists>x. sanitize_message enc m = Inr x"
    by (cases m rule: message_kinds)
      (simp_all add: sanitize_message_user sanitize_message_tool sanitize_message_plain
        sanitize_message_other)
  with False show ?thesis by simp
qed

lemma sanitize_messages_returns_iff:
  "(\<exists>out. sanitize_messages enc msgs = Inr out)
     \<longleftrightarrow> (\<forall>m \<in> set msgs. \<exists>x. sanitize_message enc m = Inr x)"
proof (induction msgs)
  case Nil
  then show ?case by (simp add: sanitize_messages_Nil)
next
  case (Cons m msgs)
  show ?case
    unfolding sanitize_messages_Cons_Inr using Cons.IH by auto
qed

lemma sanitize_messages_rel:
  assumes "sanitize_messages enc msgs = Inr out"
    and "\<And>m x. sanitize_message enc m = Inr x \<Longrightarrow>
           (if Q m then (\<exists>e. filter P x = [e] \<and> R m e) else filter P x = [])"
  shows "list_all2 R (filter Q msgs) (filter P out)"
  using assms(1)
proof (induction msgs arbitrary: out)
  case Nil
  then show ?case by (simp add: sanitize_messages_Nil)
next
  case (Cons m msgs)
  from Cons.prems obtain x rest where x: "sanitize_message enc m = Inr x"
    and rest: "sanitize_messages enc msgs = Inr rest" and out: "out = x @ rest"
    unfolding sanitize_messages_Cons_Inr by blast
  from Cons.IH[OF rest] assms(2)[OF x] show ?case
    by (auto simp: out split: if_splits)
qed

lemma sanitize_message_tool_calls:
  assumes "sanitize_message enc m = Inr x"
  shows "if with_tool_calls m
         then (\<exists>e. filter (\<lambda>e. map_of e ''tool_calls'' \<noteq> None) x = [e]
                 \<and> (\<exists>tcs tcs'. iterate (get_or m ''tool_calls'' PNone) = Inr tcs
                      \<and> e = [(''role'', PStr ''assistant''), (''content'', PNone),
                             (''tool_calls'', PList tcs')]
                      \<and> list_all2 (\<lambda>tc tc'. sanitize_tool_call enc tc = Inr tc') tcs tcs'))
         else filter (\<lambda>e. map_of e ''tool_calls'' \<noteq> None) x = []"
proof (cases m rule: message_kinds)
  case user
  with assms sanitize_message_user[OF user(1), of enc] show ?thesis
    by (auto simp: with_tool_calls_def)
next
  case tool
  with assms sanitize_message_tool[OF tool(1), of enc] show ?thesis
    by (auto simp: with_tool_calls_def)
next
  case plain
  with assms sanitize_message_plain[OF plain(1), of enc] show ?thesis
    by (auto split: if_splits)
next
  case calls
  from assms sanitize_message_calls[OF calls(1), of enc] obtain tcs tcs' where
    "iterate (get_or m ''tool_calls'' PNone) = Inr tcs"
    "mapM (sanitize_tool_call enc) tcs = Inr tcs'"
    "x = [[(''role'', PStr ''assistant''), (''content'', PNone), (''tool_calls'', PList tcs')]]"
    by (auto simp: bind_Inr_iff)
  with calls show ?thesis
    by (simp add: mapM_list_all2)
next
  case other
  with assms sanitize_message_other[OF other, of enc] show ?thesis
    by (auto simp: with_tool_calls_def)
qed

text \<open>
  Claim C5, as stated: the \<open>arguments\<close> of every tool call in the sanitized output are a
  JSON-encoded string. It fails for arguments that are a string already: they are
  forwarded as they are, without being parsed or encoded. Here the empty string and the
  text \<open>state=CA\<close>, neither of which is a JSON document, reach the output unchanged.
\<close>

theorem string_arguments_are_forwarded_unchecked:
  "sanitize_messages (\<lambda>v. Inr ''{}'')
     [[(''role'', PStr ''assistant''),
       (''tool_calls'', PList
          [PDict [(''id'', PStr ''call_1''), (''type'', PStr ''function''),
                  (''function'', PDict [(''name'', PStr ''get_alerts''),
                                       (''arguments'', PStr '''')])],
           PDict [(''id'', PStr ''call_2''), (''type'', PStr ''function''),
                  (''function'', PDict [(''name'', PStr ''get_alerts''),
                                       (''arguments'', PStr ''state=CA'')])]])]]
   = Inr [[(''role'', PStr ''assistant''), (''content'', PNone),
           (''tool_calls'', PList
              [PDict [(''id'', PStr ''call_1''), (''type'', PStr ''function''),
                      (''function'', PDict [(''name'', PStr ''get_alerts''),
                                           (''arguments'', PStr '''')])],
               PDict [(''id'', PStr ''call_2''), (''type'', PStr ''function''),
                      (''function'', PDict [(''name'', PStr ''get_alerts''),
                                           (''arguments'', PStr ''state=CA'')])]])]]"
  by (simp add: sanitize_messages_def sanitize_message_def sanitize_tool_call_def get_or_def)

text \<open>
  Claim C5, amended. The sanitization returns exactly when, in every assistant turn that
  carries tool calls, the tool calls can be gone through and each is a dictionary with a
  \<open>function\<close> that is a dictionary, an \<open>id\<close> and a \<open>type\<close>, and the encoder returns for
  arguments that are a dictionary. When it returns, the entries of the output that have
  tool calls are, in order, those of the assistant turns of the input that carry tool
  calls, with the same number of tool calls in the same order, and the \<open>arguments\<close> of
  each tool call of the output are a string: the encoding of the arguments when they were
  a dictionary, the arguments themselves when they were a string (JSON or not), and \<open>{}\<close>
  when they were missing or anything else.
\<close>

theorem sanitize_messages_arguments_are_strings:
  "((\<exists>res. sanitize_messages enc msgs = Inr res) \<longleftrightarrow>
      (\<forall>m \<in> set msgs. with_tool_calls m \<longrightarrow>
         (\<exists>tcs. iterate (get_or m ''tool_calls'' PNone) = Inr tcs
            \<and> (\<forall>tc \<in> set tcs. \<exists>d i t. getitem tc ''function'' = Inr (PDict d)
                  \<and> getitem tc ''id'' = Inr i \<and> getitem tc ''type'' = Inr t
                  \<and> (\<forall>a. map_of d ''arguments'' = Some (PDict a)
                         \<longrightarrow> (\<exists>s. enc (PDict a) = Inr s))))))
   \<and> (sanitize_messages enc msgs = Inr out \<longrightarrow>
        list_all2
          (\<lambda>m e. \<exists>tcs tcs'. iterate (get_or m ''tool_calls'' PNone) = Inr tcs
               \<and> e = [(''role'', PStr ''assistant''), (''content'', PNone),
                      (''tool_calls'', PList tcs')]
               \<and> list_all2
                    (\<lambda>tc tc'. \<exists>d s. getitem tc ''function'' = Inr (PDict d)
                         \<and> tool_call_arguments tc' = Inr (PStr s)
                         \<and> (case map_of d ''arguments'' of
                               Some (PDict a) \<Rightarrow> enc (PDict a) = Inr s
                             | Some (PStr x) \<Rightarrow> s = x
                             | _ \<Rightarrow> s = ''{}''))
                    tcs tcs')
          (filter with_tool_calls msgs)
          (filter (\<lambda>e. map_of e ''tool_calls'' \<noteq> None) out))"
proof (intro conjI impI)
  show "(\<exists>res. sanitize_messages enc msgs = Inr res) \<longleftrightarrow>
      (\<forall>m \<in> set msgs. with_tool_calls m \<longrightarrow>
         (\<exists>tcs. iterate (get_or m ''tool_calls'' PNone) = Inr tcs
            \<and> (\<forall>tc \<in> set tcs. \<exists>d i t. getitem tc ''function'' = Inr (PDict d)
                  \<and> getitem tc ''id'' = Inr i \<and> getitem tc ''type'' = Inr t
                  \<and> (\<forall>a. map_of d ''arguments'' = Some (PDict a)
                         \<longrightarrow> (\<exists>s. enc (PDict a) = Inr s)))))"
    unfolding sanitize_messages_returns_iff sanitize_message_returns sanitize_tool_call_returns
    by (rule refl)
next
  assume out: "sanitize_messages enc msgs = Inr out"
  let ?R2 = "\<lambda>tc tc'. \<exists>d s. getitem tc ''function'' = Inr (PDict d)
                         \<and> tool_call_arguments tc' = Inr (PStr s)
                         \<and> (case map_of d ''arguments'' of
                               Some (PDict a) \<Rightarrow> enc (PDict a) = Inr s
                             | Some (PStr x) \<Rightarrow> s = x
                             | _ \<Rightarrow> s = ''{}'')"
  let ?R = "\<lambda>m e. \<exists>tcs tcs'. iterate (get_or m ''tool_calls'' PNone) = Inr tcs
               \<and> e = [(''role'', PStr ''assistant''), (''content'', PNone),
                      (''tool_calls'', PList tcs')]
               \<and> list_all2 ?R2 tcs tcs'"
  have step: "if with_tool_calls m
         then (\<exists>e. filter (\<lambda>e. map_of e ''tool_calls'' \<noteq> None) x = [e] \<and> ?R m e)
         else filter (\<lambda>e. map_of e ''tool_calls'' \<noteq> None) x = []"
    if x: "sanitize_message enc m = Inr x" for m x
  proof (cases "with_tool_calls m")
    case True
    with sanitize_message_tool_calls[OF x] obtain e tcs tcs' where
      e: "filter (\<lambda>e. map_of e ''tool_calls'' \<noteq> None) x = [e]"
      and tcs: "iterate (get_or m ''tool_calls'' PNone) = Inr tcs"
      and e': "e = [(''role'', PStr ''assistant''), (''content'', PNone),
                    (''tool_calls'', PList tcs')]"
      and calls: "list_all2 (\<lambda>tc tc'. sanitize_tool_call enc tc = Inr tc') tcs tcs'"
      by auto
    from calls have "list_all2 ?R2 tcs tcs'"
      by (rule list_all2_mono) (rule sanitize_tool_call_arguments)
    with e tcs e' True show ?thesis by auto
  next
    case False
    with sanitize_message_tool_calls[OF x] show ?thesis by simp
  qed
  show "list_all2 ?R (filter with_tool_calls msgs)
          (filter (\<lambda>e. map_of e ''tool_calls'' \<noteq> None) out)"
    by (rule sanitize_messages_rel[OF out]) (rule step)
qed

theorem sanitize_messages_arguments_are_strings_witness:
  "(\<exists>res. sanitize_messages (\<lambda>v. Inr ''{state: CA}'')
       [[(''role'', PStr ''user''), (''content'', PStr ''alerts in CA'')],
        [(''role'', PStr ''assistant''),
         (''tool_calls'', PList
            [PDict [(''id'', PStr ''call_1''), (''type'', PStr ''function''),
                    (''function'', PDict [(''name'', PStr ''get_alerts''),
                                         (''arguments'', PDict [(''state'', PStr ''CA'')])])],
             PDict [(''id'', PStr ''call_2''), (''type'', PStr ''function''),
                    (''function'', PDict [(''name'', PStr ''get_alerts'')])],
             PDict [(''id'', PStr ''call_3''), (''type'', PStr ''function''),
                    (''function'', PDict [(''name'', PStr ''get_alerts''),
                                         (''arguments'', PStr ''state=CA'')])],
             PDict [(''id'', PStr ''call_4''), (''type'', PStr ''function''),
                    (''function'', PDict [(''name'', PStr ''get_alerts''),
                                         (''parameters'', PDict []),
                                         (''arguments'', PInt 5)])]])]] = Inr res)
   \<and> sanitize_messages (\<lambda>v. Inr ''{state: CA}'')
       [[(''role'', PStr ''user''), (''content'', PStr ''alerts in CA'')],
        [(''role'', PStr ''assistant''),
         (''tool_calls'', PList
            [PDict [(''id'', PStr ''call_1''), (''type'', PStr ''function''),
                    (''function'', PDict [(''name'', PStr ''get_alerts''),
                                         (''arguments'', PDict [(''state'', PStr ''CA'')])])],
             PDict [(''id'', PStr ''call_2''), (''type'', PStr ''function''),
                    (''function'', PDict [(''name'', PStr ''get_alerts'')])],
             PDict [(''id'', PStr ''call_3''), (''type'', PStr ''function''),
                    (''function'', PDict [(''name'', PStr ''get_alerts''),
                                         (''arguments'', PStr ''state=CA'')])],
             PDict [(''id'', PStr ''call_4''), (''type'', PStr ''function''),
                    (''function'', PDict [(''name'', PStr ''get_alerts''),
                                         (''parameters'', PDict []),
                                         (''arguments'', PInt 5)])]])]]
     = Inr [[(''role'', PStr ''user''), (''content'', PStr ''alerts in CA'')],
            [(''role'', PStr ''assistant''), (''content'', PNone),
             (''tool_calls'', PList
                [PDict [(''id'', PStr ''call_1''), (''type'', PStr ''function''),
                        (''function'', PDict [(''name'', PStr ''get_alerts''),
                                             (''arguments'', PStr ''{state: CA}'')])],
                 PDict [(''id'', PStr ''call_2''), (''type'', PStr ''function''),
                        (''function'', PDict [(''name'', PStr ''get_alerts''),
                                             (''arguments'', PStr ''{}'')])],
                 PDict [(''id'', PStr ''call_3''), (''type'', PStr ''function''),
                        (''function'', PDict [(''name'', PStr ''get_alerts''),
                                             (''arguments'', PStr ''state=CA'')])],
                 PDict [(''id'', PStr ''call_4''), (''type'', PStr ''function''),
                        (''function'', PDict [(''name'', PStr ''get_alerts''),
                                             (''arguments'', PStr ''{}'')])]])]]
   \<and> list_all2
        (\<lambda>m e. \<exists>tcs tcs'. iterate (get_or m ''tool_calls'' PNone) = Inr tcs
             \<and> map_of e ''tool_calls'' = Some (PList tcs')
             \<and> length tcs = length tcs'
             \<and> list_all (\<lambda>tc'. \<exists>s. tool_call_arguments tc' = Inr (PStr s)) tcs')
        (filter with_tool_calls
           [[(''role'', PStr ''user''), (''content'', PStr ''alerts in CA'')],
            [(''role'', PStr ''assistant''),
             (''tool_calls'', PList
                [PDict [(''id'', PStr ''call_1''), (''type'', PStr ''function''),
                        (''function'', PDict [(''name'', PStr ''get_alerts''),
                                             (''arguments'', PDict [(''state'', PStr ''CA'')])])],
                 PDict [(''id'', PStr ''call_2''), (''type'', PStr ''function''),
                        (''function'', PDict [(''name'', PStr ''get_alerts'')])],
                 PDict [(''id'', PStr ''call_3''), (''type'', PStr ''function''),
                        (''function'', PDict [(''name'', PStr ''get_alerts''),
                                             (''arguments'', PStr ''state=CA'')])],
                 PDict [(''id'', PStr ''call_4''), (''type'', PStr ''function''),
                        (''function'', PDict [(''name'', PStr ''get_alerts''),
                                             (''parameters'', PDict []),
                                             (''arguments'', PInt 5)])]])]])
        (filter (\<lambda>e. map_of e ''tool_calls'' \<noteq> None)
           [[(''role'', PStr ''user''), (''content'', PStr ''alerts in CA'')],
            [(''role'', PStr ''assistant''), (''content'', PNone),
             (''tool_calls'', PList
                [PDict [(''id'', PStr ''call_1''), (''type'', PStr ''function''),
                        (''function'', PDict [(''name'', PStr ''get_alerts''),
                                             (''arguments'', PStr ''{state: CA}'')])],
                 PDict [(''id'', PStr ''call_2''), (''type'', PStr ''function''),
                        (''function'', PDict [(''name'', PStr ''get_alerts''),
                                             (''arguments'', PStr ''{}'')])],
                 PDict [(''id'', PStr ''call_3''), (''type'', PStr ''function''),
                        (''function'', PDict [(''name'', PStr ''get_alerts''),
                                             (''arguments'', PStr ''state=CA'')])],
                 PDict [(''id'', PStr ''call_4''), (''type'', PStr ''function''),
                        (''function'', PDict [(''name'', PStr ''get_alerts''),
                                             (''arguments'', PStr ''{}'')])]])]])"
proof -
  let ?enc = "\<lambda>v::pyval. (Inr ''{state: CA}'' :: exn + string)"
  let ?msgs = "[[(''role'', PStr ''user''), (''content'', PStr ''alerts in CA'')],
        [(''role'', PStr ''assistant''),
         (''tool_calls'', PList
            [PDict [(''id'', PStr ''call_1''), (''type'', PStr ''function''),
                    (''function'', PDict [(''name'', PStr ''get_alerts''),
                                         (''arguments'', PDict [(''state'', PStr ''CA'')])])],
             PDict [(''id'', PStr ''call_2''), (''type'', PStr ''function''),
                    (''function'', PDict [(''name'', PStr ''get_alerts'')])],
             PDict [(''id'', PStr ''call_3''), (''type'', PStr ''function''),
                    (''function'', PDict [(''name'', PStr ''get_alerts''),
                                         (''arguments'', PStr ''state=CA'')])],
             PDict [(''id'', PStr ''call_4''), (''type'', PStr ''function''),
                    (''function'', PDict [(''name'', PStr ''get_alerts''),
                                         (''parameters'', PDict []),
                                         (''arguments'', PInt 5)])]])]]"
  let ?out = "[[(''role'', PStr ''user''), (''content'', PStr ''alerts in CA'')],
            [(''role'', PStr ''assistant''), (''content'', PNone),
             (''tool_calls'', PList
                [PDict [(''id'', PStr ''call_1''), (''type'', PStr ''function''),
                        (''function'', PDict [(''name'', PStr ''get_alerts''),
                                             (''arguments'', PStr ''{state: CA}'')])],
                 PDict [(''id'', PStr ''call_2''), (''type'', PStr ''function''),
                        (''function'', PDict [(''name'', PStr ''get_alerts''),
                                             (''arguments'', PStr ''{}'')])],
                 PDict [(''id'', PStr ''call_3''), (''type'', PStr ''function''),
                        (''function'', PDict [(''name'', PStr ''get_alerts''),
                                             (''arguments'', PStr ''state=CA'')])],
                 PDict [(''id'', PStr ''call_4''), (''type'', PStr ''function''),
                        (''function'', PDict [(''name'', PStr ''get_alerts''),
                                             (''arguments'', PStr ''{}'')])]])]]"
  have wf: "\<forall>m \<in> set ?msgs. with_tool_calls m \<longrightarrow>
         (\<exists>tcs. iterate (get_or m ''tool_calls'' PNone) = Inr tcs
            \<and> (\<forall>tc \<in> set tcs. \<exists>d i t. getitem tc ''function'' = Inr (PDict d)
                  \<and> getitem tc ''id'' = Inr i \<and> getitem tc ''type'' = Inr t
                  \<and> (\<forall>a. map_of d ''arguments'' = Some (PDict a)
                         \<longrightarrow> (\<exists>s. ?enc (PDict a) = Inr s))))"
    by (simp add: with_tool_calls_def is_assistant_def get_or_def)
  have a: "\<exists>res. sanitize_messages ?enc ?msgs = Inr res"
    using sanitize_messages_arguments_are_strings[of ?enc ?msgs] wf by blast
  have run: "sanitize_messages ?enc ?msgs = Inr ?out"
    by (simp add: sanitize_messages_def sanitize_message_def sanitize_tool_call_def get_or_def)
  from sanitize_messages_arguments_are_strings[of ?enc ?msgs ?out] run
  have "list_all2
          (\<lambda>m e. \<exists>tcs tcs'. iterate (get_or m ''tool_calls'' PNone) = Inr tcs
               \<and> e = [(''role'', PStr ''assistant''), (''content'', PNone),
                      (''tool_calls'', PList tcs')]
               \<and> list_all2
                    (\<lambda>tc tc'. \<exists>d s. getitem tc ''function'' = Inr (PDict d)
                         \<and> tool_call_arguments tc' = Inr (PStr s)
                         \<and> (case map_of d ''arguments'' of
                               Some (PDict a) \<Rightarrow> ?enc (PDict a) = Inr s
                             | Some (PStr x) \<Rightarrow> s = x
                             | _ \<Rightarrow> s = ''{}''))
                    tcs tcs')
          (filter with_tool_calls ?msgs)
          (filter (\<lambda>e. map_of e ''tool_calls'' \<noteq> None) ?out)"
    by blast
  then have b: "list_all2
        (\<lambda>m e. \<exists>tcs tcs'. iterate (get_or m ''tool_calls'' PNone) = Inr tcs
             \<and> map_of e ''tool_calls'' = Some (PList tcs')
             \<and> length tcs = length tcs'
             \<and> list_all (\<lambda>tc'. \<exists>s. tool_call_arguments tc' = Inr (PStr s)) tcs')
        (filter with_tool_calls ?msgs)
        (filter (\<lambda>e. map_of e ''tool_calls'' \<noteq> None) ?out)"
  proof (rule list_all2_mono)
    fix m e
    assume "\<exists>tcs tcs'. iterate (get_or m ''tool_calls'' PNone) = Inr tcs
               \<and> e = [(''role'', PStr ''assistant''), (''content'', PNone),
                      (''tool_calls'', PList tcs')]
               \<and> list_all2
                    (\<lambda>tc tc'. \<exists>d s. getitem tc ''function'' = Inr (PDict d)
                         \<and> tool_call_arguments tc' = Inr (PStr s)
                         \<and> (case map_of d ''arguments'' of
                               Some (PDict a) \<Rightarrow> ?enc (PDict a) = Inr s
                             | Some (PStr x) \<Rightarrow> s = x
                             | _ \<Rightarrow> s = ''{}''))
                    tcs tcs'"
    then obtain tcs tcs' where t: "iterate (get_or m ''tool_calls'' PNone) = Inr tcs"
      and e: "e = [(''role'', PStr ''assistant''), (''content'', PNone),
                      (''tool_calls'', PList tcs')]"
      and l: "list_all2
                    (\<lambda>tc tc'. \<exists>d s. getitem tc ''function'' = Inr (PDict d)
                         \<and> tool_call_arguments tc' = Inr (PStr s)
                         \<and> (case map_of d ''arguments'' of
                               Some (PDict a) \<Rightarrow> ?enc (PDict a) = Inr s
                             | Some (PStr x) \<Rightarrow> s = x
                             | _ \<Rightarrow> s = ''{}''))
                    tcs tcs'"
      by blast
    from l have n: "length tcs = length tcs'"
      by (rule list_all2_lengthD)
    from l have "list_all (\<lambda>tc'. \<exists>s. tool_call_arguments tc' = Inr (PStr s)) tcs'"
      by (induction rule: list_all2_induct) auto
    with t e n show "\<exists>tcs tcs'. iterate (get_or m ''tool_calls'' PNone) = Inr tcs
             \<and> map_of e ''tool_calls'' = Some (PList tcs')
             \<and> length tcs = length tcs'
             \<and> list_all (\<lambda>tc'. \<exists>s. tool_call_arguments tc' = Inr (PStr s)) tcs'"
      by auto
  qed
  from a run b show ?thesis by blast
qed

section \<open>Properties of the Anthropic adapter\<close>

lemma finish_Inr:
  "finish st = Inr out \<Longrightarrow>
     log out = st_log st \<and> called out = st_called st \<and> sent out = st_sent st
     \<and> segments out = st_final_text st \<and> join_final (segments out) = Inr (answer out)"
  by (auto simp: finish_def dest!: bind_Inr)

text \<open>One pass of the loop over the blocks of the first reply: for a tool-use block the
  tool is called, and the content it returned is appended as a user turn, after at most an
  assistant turn; the other blocks leave the log as it is.\<close>

lemma claude_step_log:
  assumes "claude_block_step w b st = Inr st'"
  shows "\<exists>results. mapM (\<lambda>(name, args). call_tool w (PStr name) args) (tool_uses [b]) = Inr results
    \<and> filter is_user (st_log st')
        = filter is_user (st_log st) @ map (\<lambda>c. [(''role'', PStr ''user''), (''content'', c)]) results
    \<and> (list_all user_or_assistant (st_log st) \<longrightarrow> list_all user_or_assistant (st_log st'))"
proof (cases b)
  case (TextBlock t)
  with assms show ?thesis by auto
next
  case (ToolUseBlock n a t)
  with assms obtain c where c: "call_tool w (PStr n) a = Inr c"
    and st': "st_log st' = st_log st
       @ (case t of None \<Rightarrow> []
          | Some s \<Rightarrow> (if s \<noteq> [] then [[(''role'', PStr ''assistant''), (''content'', PStr s)]]
                       else []))
       @ [[(''role'', PStr ''user''), (''content'', c)]]"
    by (auto simp: Let_def dest!: bind_Inr)
  from c have "mapM (\<lambda>(name, args). call_tool w (PStr name) args) (tool_uses [b]) = Inr [c]"
    by (simp add: ToolUseBlock)
  moreover have "filter is_user (st_log st')
        = filter is_user (st_log st) @ map (\<lambda>c. [(''role'', PStr ''user''), (''content'', c)]) [c]"
    by (simp add: st' is_user_def get_or_def split: option.splits)
  moreover have "list_all user_or_assistant (st_log st) \<longrightarrow> list_all user_or_assistant (st_log st')"
    by (simp add: st' user_or_assistant_def get_or_def split: option.splits)
  ultimately show ?thesis by blast
next
  case OtherBlock
  with assms show ?thesis by auto
qed

lemma tool_uses_Cons: "tool_uses (b # bs) = tool_uses [b] @ tool_uses bs"
  by (cases b) auto

lemma mapM_append_Inr:
  "mapM f xs = Inr vs \<Longrightarrow> mapM f ys = Inr ws \<Longrightarrow> mapM f (xs @ ys) = Inr (vs @ ws)"
  by (simp add: mapM_list_all2 list_all2_appendI)

lemma claude_loop_log:
  assumes "claude_block_loop w bs st = Inr st'"
  shows "\<exists>results. mapM (\<lambda>(name, args). call_tool w (PStr name) args) (tool_uses bs) = Inr results
    \<and> filter is_user (st_log st')
        = filter is_user (st_log st) @ map (\<lambda>c. [(''role'', PStr ''user''), (''content'', c)]) results
    \<and> (list_all user_or_assistant (st_log st) \<longrightarrow> list_all user_or_assistant (st_log st'))"
  using assms
proof (induction bs arbitrary: st)
  case Nil
  then show ?case by simp
next
  case (Cons b bs)
  let ?call = "\<lambda>(name, args). call_tool w (PStr name) args"
  let ?turn = "\<lambda>c. [(''role'', PStr ''user''), (''content'', c)]"
  from Cons.prems obtain st1 where s1: "claude_block_step w b st = Inr st1"
    and l: "claude_block_loop w bs st1 = Inr st'"
    by (auto split: sum.splits)
  from claude_step_log[OF s1] obtain r1 where
    r1: "mapM ?call (tool_uses [b]) = Inr r1"
    and u1: "filter is_user (st_log st1) = filter is_user (st_log st) @ map ?turn r1"
    and a1: "list_all user_or_assistant (st_log st) \<longrightarrow> list_all user_or_assistant (st_log st1)"
    by blast
  from Cons.IH[OF l] obtain r2 where
    r2: "mapM ?call (tool_uses bs) = Inr r2"
    and u2: "filter is_user (st_log st') = filter is_user (st_log st1) @ map ?turn r2"
    and a2: "list_all user_or_assistant (st_log st1) \<longrightarrow> list_all user_or_assistant (st_log st')"
    by blast
  from mapM_append_Inr[OF r1 r2] have "mapM ?call (tool_uses (b # bs)) = Inr (r1 @ r2)"
    by (simp add: tool_uses_Cons[of b bs])
  moreover from u1 u2 have "filter is_user (st_log st')
      = filter is_user (st_log st) @ map ?turn (r1 @ r2)"
    by simp
  moreover from a1 a2 have
    "list_all user_or_assistant (st_log st) \<longrightarrow> list_all user_or_assistant (st_log st')"
    by simp
  ultimately show ?case by blast
qed

lemma last_tool_result_none:
  assumes "list_all user_or_assistant msgs"
  shows "last_tool_result msgs = PNone"
proof -
  have "filter (\<lambda>m. get_or m ''role'' PNone = PStr ''tool'') (rev msgs) = []"
    using assms by (auto simp: filter_empty_conv list_all_iff user_or_assistant_def)
  then show ?thesis by (simp add: last_tool_result_def)
qed

lemma process_with_claude_log:
  assumes "process_with_claude w tools (user_query q) = Inr out"
  shows "\<exists>results.
      mapM (\<lambda>(name, args). call_tool w (PStr name) args)
        (tool_uses (reply_blocks (anthropic_create w (user_query q) (Some (anthropic_tools tools)))))
        = Inr results
    \<and> filter is_user (log out)
        = user_query q @ map (\<lambda>c. [(''role'', PStr ''user''), (''content'', c)]) results
    \<and> list_all user_or_assistant (log out)"
proof (cases "anthropic_create w (user_query q) (Some (anthropic_tools tools))")
  case (Inl e)
  with assms show ?thesis
    by (auto simp: process_with_claude_def error_outcome_def user_or_assistant_def
        is_user_def get_or_def user_query_def reply_blocks_def)
next
  case (Inr blocks)
  with assms obtain st' where
    l: "claude_block_loop w blocks
          \<lparr>st_log = user_query q, st_final_text = [],
           st_sent = [user_query q], st_called = []\<rparr> = Inr st'"
    and f: "finish st' = Inr out"
    by (auto simp: process_with_claude_def dest!: bind_Inr)
  have q: "filter is_user (user_query q) = user_query q" "list_all user_or_assistant (user_query q)"
    by (simp_all add: user_or_assistant_def is_user_def get_or_def user_query_def)
  from claude_loop_log[OF l] finish_Inr[OF f] q show ?thesis
    by (simp add: Inr reply_blocks_def)
qed

lemma present_none: "present r PNone = Inr (strip (cleaned r))"
  by (simp add: present_def Let_def)

text \<open>
  Claim C9. With the Anthropic provider, whenever \<open>process_query\<close> returns, every tool
  call the first reply asked for was dispatched to the tool server and returned, and the
  user turns of the log are the query followed by one turn for each of these calls, in
  order, whose content is what the call returned. Every turn of the log has role \<open>user\<close>
  or \<open>assistant\<close>, none has role \<open>tool\<close>. So the second component of the pair
  \<open>process_query\<close> returns is \<open>None\<close>, and the presentation prints the cleaned answer,
  never a tool result.
\<close>

theorem anthropic_last_tool_result_is_none:
  assumes "process_query w Anthropic query = Inr (r, l)"
  shows "l = PNone \<and> present r l = Inr (strip (cleaned r))
    \<and> (\<exists>tools out results. list_tools w = Inr tools
         \<and> process_with_claude w tools (user_query query) = Inr out
         \<and> r = answer out \<and> l = last_tool_result (log out)
         \<and> mapM (\<lambda>(name, args). call_tool w (PStr name) args)
              (tool_uses (reply_blocks
                 (anthropic_create w (user_query query) (Some (anthropic_tools tools)))))
              = Inr results
         \<and> filter is_user (log out)
              = user_query query
                @ map (\<lambda>c. [(''role'', PStr ''user''), (''content'', c)]) results
         \<and> list_all user_or_assistant (log out))"
proof -
  from assms obtain tools out where t: "list_tools w = Inr tools"
    and p: "process_with_claude w tools (user_query query) = Inr out"
    and r: "r = answer out" and l: "l = last_tool_result (log out)"
    by (auto simp: process_query_def Let_def user_query_def dest!: bind_Inr)
  from process_with_claude_log[OF p] obtain results where
    c: "mapM (\<lambda>(name, args). call_tool w (PStr name) args)
          (tool_uses (reply_blocks
             (anthropic_create w (user_query query) (Some (anthropic_tools tools)))))
          = Inr results"
    and u: "filter is_user (log out)
              = user_query query
                @ map (\<lambda>c. [(''role'', PStr ''user''), (''content'', c)]) results"
    and roles: "list_all user_or_assistant (log out)"
    by blast
  from last_tool_result_none[OF roles] l have n: "l = PNone" by simp
  have "present r l = Inr (strip (cleaned r))"
    by (simp add: n present_none)
  with n t p r l c u roles show ?thesis by blast
qed

lemma scripted_anthropic_run:
  "process_query scripted_world Anthropic ''alerts in CA''
     = Inr (''[Calling tool get_alerts with args {...}]'' @ NL
              @ ''There are no active alerts in CA.'', PNone)"
  by (simp add: process_query_def process_with_claude_def scripted_world_def anthropic_tools_def
      calling_marker_def claude_followup_def finish_def join_final_def last_tool_result_def
      get_or_def Let_def)

theorem anthropic_last_tool_result_is_none_witness:
  "process_query scripted_world Anthropic ''alerts in CA''
     = Inr (''[Calling tool get_alerts with args {...}]'' @ NL
              @ ''There are no active alerts in CA.'', PNone)
   \<and> present (''[Calling tool get_alerts with args {...}]'' @ NL
              @ ''There are no active alerts in CA.'') PNone
     = Inr (strip (cleaned (''[Calling tool get_alerts with args {...}]'' @ NL
              @ ''There are no active alerts in CA.'')))
   \<and> call_tool scripted_world (PStr ''get_alerts'') (PDict [(''state'', PStr ''CA'')])
     = Inr (PList [PText ''No active alerts for this state.''])
   \<and> (\<exists>tools out. list_tools scripted_world = Inr tools
        \<and> process_with_claude scripted_world tools (user_query ''alerts in CA'') = Inr out
        \<and> filter is_user (log out)
            = [[(''role'', PStr ''user''), (''content'', PStr ''alerts in CA'')],
               [(''role'', PStr ''user''),
                (''content'', PList [PText ''No active alerts for this state.''])]]
        \<and> list_all user_or_assistant (log out))"
proof -
  let ?a = "''[Calling tool get_alerts with args {...}]'' @ NL
              @ ''There are no active alerts in CA.''"
  from anthropic_last_tool_result_is_none[OF scripted_anthropic_run]
  obtain tools out results where p: "present ?a PNone = Inr (strip (cleaned ?a))"
    and t: "list_tools scripted_world = Inr tools"
    and o: "process_with_claude scripted_world tools (user_query ''alerts in CA'') = Inr out"
    and c: "mapM (\<lambda>(name, args). call_tool scripted_world (PStr name) args)
              (tool_uses (reply_blocks
                 (anthropic_create scripted_world (user_query ''alerts in CA'')
                    (Some (anthropic_tools tools)))))
              = Inr results"
    and u: "filter is_user (log out)
              = user_query ''alerts in CA''
                @ map (\<lambda>c. [(''role'', PStr ''user''), (''content'', c)]) results"
    and roles: "list_all user_or_assistant (log out)"
    by blast
  have k: "call_tool scripted_world (PStr ''get_alerts'') (PDict [(''state'', PStr ''CA'')])
     = Inr (PList [PText ''No active alerts for this state.''])"
    by (simp add: scripted_world_def)
  from c have "results = [PList [PText ''No active alerts for this state.'']]"
    by (simp add: scripted_world_def reply_blocks_def)
  with u have "filter is_user (log out)
            = [[(''role'', PStr ''user''), (''content'', PStr ''alerts in CA'')],
               [(''role'', PStr ''user''),
                (''content'', PList [PText ''No active alerts for this state.''])]]"
    by (simp add: user_query_def)
  with scripted_anthropic_run p t o k roles show ?thesis by blast
qed

section \<open>Failures of the model provider\<close>





lemma sorry_reply_error_outcome:
  "prefix ''Sorry, I encountered an error'' text \<Longrightarrow>
   sorry_reply (Inr (error_outcome text messages requests)) text messages"
  by (simp add: sorry_reply_def error_outcome_def)

lemma sorry_prefix:
  "prefix ''Sorry, I encountered an error'' (''Sorry, I encountered an error'' @ rest)"
  by (rule prefixI) simp





section \<open>Properties of the tool loops\<close>

















end
